theory Spec2Isabelle
  imports Complex_Main "HOL-Library.Sublist" "HOL-Library.AList"
begin

section \<open>Tables, cells and Python strings\<close>

text \<open>
  The engine of \<^verbatim>\<open>services/workflow_engine.py\<close> moves pandas DataFrames between the
  nodes of a graph. A DataFrame is modelled by its ordered column names and its rows; a cell
  is null (NaN/None), an integer, a float, a string or a boolean. Floats are idealised as
  rationals: rounding, infinities and datetime cells are outside the model. Python strings
  are character lists; a literal of the source that is not ASCII is the list of its UTF-8
  bytes (prefix, suffix, equality and code point order are the same on both readings).
\<close>

datatype cell = Null | IntV int | FloatV rat | StrV string | BoolV bool

record table =
  columns :: "string list"
  rows :: "cell list list"

type_synonym ref = nat

text \<open>A config value that the source accepts as one name or as a list of names.\<close>

datatype names = One string | Many "string list"

definition truthy :: "string option \<Rightarrow> bool" where
  "truthy v = (case v of None \<Rightarrow> False | Some s \<Rightarrow> s \<noteq> [])"

definition truthy_names :: "names option \<Rightarrow> bool" where
  "truthy_names v = (case v of None \<Rightarrow> False | Some (One s) \<Rightarrow> s \<noteq> [] | Some (Many l) \<Rightarrow> l \<noteq> [])"

text \<open>\<^verbatim>\<open>a or b\<close> on optional strings and on optional names.\<close>

definition or_else :: "string option \<Rightarrow> string option \<Rightarrow> string option" where
  "or_else a b = (if truthy a then a else b)"

definition or_else_names :: "names option \<Rightarrow> names option \<Rightarrow> names option" where
  "or_else_names a b = (if truthy_names a then a else b)"

text \<open>\<^verbatim>\<open>if isinstance(x, str): x = [x]\<close>\<close>

definition as_list :: "names \<Rightarrow> string list" where
  "as_list v = (case v of One s \<Rightarrow> [s] | Many l \<Rightarrow> l)"

definition startswith :: "string \<Rightarrow> string \<Rightarrow> bool" where
  "startswith s p = prefix p s"

definition endswith :: "string \<Rightarrow> string \<Rightarrow> bool" where
  "endswith s p = suffix p s"

text \<open>\<^verbatim>\<open>sub in s\<close> on strings.\<close>

fun contains :: "string \<Rightarrow> string \<Rightarrow> bool" where
  "contains [] sub = (sub = [])"
| "contains (c # cs) sub = (prefix sub (c # cs) \<or> contains cs sub)"

text \<open>
  \<^verbatim>\<open>s.replace(pat, rep)\<close> for a pattern that is not empty (the only use is on the
  placeholder \<^verbatim>\<open>{{col}}\<close>, which has at least four characters): left to right, without
  overlap.
\<close>

fun replace_all :: "string \<Rightarrow> string \<Rightarrow> string \<Rightarrow> string" where
  "replace_all pat rep [] = []"
| "replace_all pat rep (c # cs) =
     (if pat \<noteq> [] \<and> prefix pat (c # cs)
      then rep @ replace_all pat rep (drop (length pat - 1) cs)
      else c # replace_all pat rep cs)"

text \<open>\<^verbatim>\<open>sep.join(parts)\<close>\<close>

fun join_str :: "string \<Rightarrow> string list \<Rightarrow> string" where
  "join_str sep [] = []"
| "join_str sep [p] = p"
| "join_str sep (p # q # ps) = p @ sep @ join_str sep (q # ps)"

subsection \<open>Column and row primitives of pandas\<close>

text \<open>
  These are the pandas calls whose result the engine relies on, written on the model of a
  table. All of them return a new frame; \<open>set_column\<close> is the value that an in-place
  assignment \<^verbatim>\<open>df[name] = values\<close> leaves in the frame it is applied to.
\<close>

definition nrows :: "table \<Rightarrow> nat" where
  "nrows t = length (rows t)"

text \<open>The cells of one row under a column name (several when the name is duplicated).\<close>

definition cells_of :: "string \<Rightarrow> string list \<Rightarrow> cell list \<Rightarrow> cell list" where
  "cells_of name cols row = map snd (filter (\<lambda>p. fst p = name) (zip cols row))"

definition cell_at :: "string \<Rightarrow> string list \<Rightarrow> cell list \<Rightarrow> cell" where
  "cell_at name cols row = (case cells_of name cols row of [] \<Rightarrow> Null | v # _ \<Rightarrow> v)"

text \<open>\<^verbatim>\<open>df[name]\<close> as the list of its values (callers test \<^verbatim>\<open>name in df.columns\<close> first).\<close>

definition column :: "string \<Rightarrow> table \<Rightarrow> cell list" where
  "column name t = map (cell_at name (columns t)) (rows t)"

text \<open>\<^verbatim>\<open>df.drop(columns=names, errors='ignore')\<close>\<close>

definition pd_drop :: "string list \<Rightarrow> table \<Rightarrow> table" where
  "pd_drop names t =
     \<lparr>columns = filter (\<lambda>c. c \<notin> set names) (columns t),
      rows = map (\<lambda>r. map snd (filter (\<lambda>p. fst p \<notin> set names) (zip (columns t) r))) (rows t)\<rparr>"

text \<open>\<^verbatim>\<open>df[names]\<close> for a list of names that are all present.\<close>

definition pd_select :: "string list \<Rightarrow> table \<Rightarrow> table" where
  "pd_select names t =
     \<lparr>columns = concat (map (\<lambda>n. filter (\<lambda>c. c = n) (columns t)) names),
      rows = map (\<lambda>r. concat (map (\<lambda>n. cells_of n (columns t) r) names)) (rows t)\<rparr>"

text \<open>\<^verbatim>\<open>df.rename(columns=mapping)\<close>: names that are not keys stay.\<close>

definition pd_rename :: "(string \<times> string) list \<Rightarrow> table \<Rightarrow> table" where
  "pd_rename mapping t =
     t\<lparr>columns := map (\<lambda>c. case map_of mapping c of None \<Rightarrow> c | Some c' \<Rightarrow> c') (columns t)\<rparr>"

text \<open>
  The frame after \<^verbatim>\<open>df[name] = values\<close>, one value per row: an existing column is
  overwritten in place, a new one is appended on the right.
\<close>

definition set_column :: "string \<Rightarrow> cell list \<Rightarrow> table \<Rightarrow> table" where
  "set_column name vals t =
     (if name \<in> set (columns t)
      then t\<lparr>rows := map (\<lambda>(r, v). map (\<lambda>(c, x). if c = name then v else x) (zip (columns t) r))
                          (zip (rows t) vals)\<rparr>
      else \<lparr>columns = columns t @ [name], rows = map (\<lambda>(r, v). r @ [v]) (zip (rows t) vals)\<rparr>)"

text \<open>\<^verbatim>\<open>df.head(n)\<close>\<close>

definition pd_head :: "nat \<Rightarrow> table \<Rightarrow> table" where
  "pd_head n t = t\<lparr>rows := take n (rows t)\<rparr>"

text \<open>\<^verbatim>\<open>df[mask]\<close> for a mask computed row by row.\<close>

definition pd_filter_rows :: "(cell list \<Rightarrow> bool) \<Rightarrow> table \<Rightarrow> table" where
  "pd_filter_rows p t = t\<lparr>rows := filter p (rows t)\<rparr>"

text \<open>\<^verbatim>\<open>df.fillna("")\<close> and \<^verbatim>\<open>to_dict(orient="records")\<close> of the run report.\<close>

definition fillna_empty :: "cell \<Rightarrow> cell" where
  "fillna_empty c = (if c = Null then StrV [] else c)"

definition to_records :: "table \<Rightarrow> (string \<times> cell) list list" where
  "to_records t = map (\<lambda>r. zip (columns t) (map fillna_empty r)) (rows t)"

section \<open>Errors, node configuration and the environment\<close>

text \<open>
  One constructor for every \<^verbatim>\<open>raise\<close> of the engine, carrying the values its message
  interpolates (a missing key column and the list of the columns that exist);
  \<open>Raised\<close> is an exception that comes out of pandas, the file system, the remote model
  or a user script, with its message. \<^verbatim>\<open>str(e)\<close> is the error value itself.
  \<open>BaseRaised\<close> is an exception whose class is not a subclass of \<^verbatim>\<open>Exception\<close>
  (\<^verbatim>\<open>SystemExit\<close> raised by a script, \<^verbatim>\<open>KeyboardInterrupt\<close>,
  \<^verbatim>\<open>asyncio.CancelledError\<close> in an awaited call): a handler \<^verbatim>\<open>except Exception\<close> lets
  it pass, a bare \<^verbatim>\<open>except:\<close> catches it.
\<close>

datatype error =
    JoinArity | VlookupArity | DiffArity | ReconcileArity
  | FileNotFound "string option"
  | JoinNoKeys
  | JoinLeftMissing string "string list"
  | JoinRightMissing string "string list"
  | VlookupNoLeftKey | VlookupNoRightKey
  | VlookupMainMissing string "string list"
  | VlookupLookupMissing string "string list"
  | ReconcileNoKeys | ReconcileNoLeft | ReconcileNoRight
  | ReconcileDetailKeyMissing string "string list"
  | ReconcileSummaryKeyMissing string "string list"
  | ReconcileDetailAmountMissing string "string list"
  | ReconcileSummaryAmountMissing string "string list"
  | CodeEmpty | CodeNoResult
  | PromptEmpty
  | Raised string
  | BaseRaised string

text \<open>\<^verbatim>\<open>isinstance(e, Exception)\<close>\<close>

definition is_exception :: "error \<Rightarrow> bool" where
  "is_exception e = (case e of BaseRaised msg \<Rightarrow> False | _ \<Rightarrow> True)"

text \<open>
  The \<^verbatim>\<open>config\<close> dictionary of a node, with one field for every key that some operator
  reads. An absent key is \<open>None\<close> (or the empty list where the source's default is the
  empty list); the values have the types that the operators expect. \<open>cfg_row_limit\<close> is
  the key that the specification gives to the per-row model node; no operator reads it.
  The key \<^verbatim>\<open>columns\<close> is read by two operators and \<^verbatim>\<open>join\<close> is the key of concat.
\<close>

record config =
  cfg_file_id :: "string option"
  cfg_sheet_name :: "string option"
  cfg_header_row :: "int option"
  cfg_skip_rows :: "int option"
  cfg_delimiter :: "string option"
  cfg_encoding :: "string option"
  cfg_filter_code :: "string option"
  cfg_drop_columns :: "string list"
  cfg_calculations :: "(string option \<times> string option) list"
  cfg_rename_map :: "(string \<times> string) list"
  cfg_selected_columns :: "string list"
  cfg_sort_by :: "string option"
  cfg_sort_order :: "string option"
  cfg_conversions :: "(string option \<times> string option) list"
  cfg_strategy :: "string option"
  cfg_columns :: "names option"
  cfg_fill_value :: "cell option"
  cfg_subset :: "string list"
  cfg_keep :: "string option"
  cfg_column :: "string option"
  cfg_operation :: "string option"
  cfg_pattern :: "string option"
  cfg_replacement :: "string option"
  cfg_extract :: "string list"
  cfg_offset :: "string option"
  cfg_group_by :: "string list"
  cfg_aggregations :: "(string option \<times> string option \<times> string option) list"
  cfg_index :: "string list"
  cfg_values :: "names option"
  cfg_aggfunc :: "string option"
  cfg_id_vars :: "string list"
  cfg_value_vars :: "string list"
  cfg_var_name :: "string option"
  cfg_value_name :: "string option"
  cfg_how :: "string option"
  cfg_left_on :: "names option"
  cfg_right_on :: "names option"
  cfg_on :: "names option"
  cfg_join :: "string option"
  cfg_ignore_index :: "bool option"
  cfg_left_key :: "string option"
  cfg_lookup_key :: "string option"
  cfg_right_key :: "string option"
  cfg_columns_to_get :: "string list"
  cfg_return_columns :: "string list"
  cfg_compare_columns :: "string list"
  cfg_join_keys :: "names option"
  cfg_detail_key :: "names option"
  cfg_left_column :: "string option"
  cfg_detail_amount :: "string option"
  cfg_right_column :: "string option"
  cfg_summary_amount :: "string option"
  cfg_output_mode :: "string option"
  cfg_tolerance :: "rat option"
  cfg_python_code :: "string option"
  cfg_prompt :: "string option"
  cfg_target_column :: "string option"
  cfg_row_limit :: "int option"
  cfg_filename :: "string option"

text \<open>The empty dictionary \<^verbatim>\<open>{}\<close>.\<close>

definition empty_config :: config where
  "empty_config =
     \<lparr>cfg_file_id = None, cfg_sheet_name = None, cfg_header_row = None, cfg_skip_rows = None,
      cfg_delimiter = None, cfg_encoding = None, cfg_filter_code = None, cfg_drop_columns = [],
      cfg_calculations = [], cfg_rename_map = [], cfg_selected_columns = [], cfg_sort_by = None,
      cfg_sort_order = None, cfg_conversions = [], cfg_strategy = None, cfg_columns = None,
      cfg_fill_value = None, cfg_subset = [], cfg_keep = None, cfg_column = None,
      cfg_operation = None, cfg_pattern = None, cfg_replacement = None, cfg_extract = [],
      cfg_offset = None, cfg_group_by = [], cfg_aggregations = [], cfg_index = [],
      cfg_values = None, cfg_aggfunc = None, cfg_id_vars = [], cfg_value_vars = [],
      cfg_var_name = None, cfg_value_name = None, cfg_how = None, cfg_left_on = None,
      cfg_right_on = None, cfg_on = None, cfg_join = None, cfg_ignore_index = None,
      cfg_left_key = None, cfg_lookup_key = None, cfg_right_key = None, cfg_columns_to_get = [],
      cfg_return_columns = [], cfg_compare_columns = [], cfg_join_keys = None,
      cfg_detail_key = None, cfg_left_column = None, cfg_detail_amount = None,
      cfg_right_column = None, cfg_summary_amount = None, cfg_output_mode = None,
      cfg_tolerance = None, cfg_python_code = None, cfg_prompt = None, cfg_target_column = None,
      cfg_row_limit = None, cfg_filename = None\<rparr>"

subsection \<open>The store of frames and the outside world\<close>

text \<open>
  DataFrames are objects: two variables can name the same frame, and an assignment
  \<^verbatim>\<open>df[col] = ...\<close> changes the frame for everyone who holds it. The frames of a run live
  in a store, a list indexed by references; \<^verbatim>\<open>df.copy()\<close> and every pandas call that
  returns a new frame allocate, an in-place assignment overwrites the frame at its reference.
  The state of everything outside the process (the upload directory, the remote model, what a
  script can reach) is a value of an arbitrary type \<open>'w\<close> that the environment's operations
  read and change. \<open>requests\<close> records the prompts of the chat-completion requests in the
  order in which \<^verbatim>\<open>_simple_ai_call\<close> reaches \<^verbatim>\<open>client.post\<close> with them.
\<close>

record 'w machine =
  store :: "table list"
  world :: 'w
  requests :: "string list"

definition deref :: "'w machine \<Rightarrow> ref \<Rightarrow> table" where
  "deref m a = store m ! a"

definition alloc :: "table \<Rightarrow> 'w machine \<Rightarrow> ref \<times> 'w machine" where
  "alloc t m = (length (store m), m\<lparr>store := store m @ [t]\<rparr>)"

definition assign :: "ref \<Rightarrow> table \<Rightarrow> 'w machine \<Rightarrow> 'w machine" where
  "assign a t m = m\<lparr>store := (store m)[a := t]\<rparr>"

text \<open>A pandas call that returns a new frame or raises.\<close>

definition alloc_result :: "error + table \<Rightarrow> 'w machine \<Rightarrow> (error + ref) \<times> 'w machine" where
  "alloc_result r m =
     (case r of Inl e \<Rightarrow> (Inl e, m) | Inr t \<Rightarrow> (case alloc t m of (a, m') \<Rightarrow> (Inr a, m')))"

text \<open>
  What one call of \<^verbatim>\<open>_simple_ai_call\<close> meets: a reply with status 200 and its content,
  another status (its code as text and the first 200 characters of the body), an exception
  inside the \<^verbatim>\<open>try\<close> block (transport, timeout, malformed reply), an exception raised
  before the \<^verbatim>\<open>try\<close> block (the two imports: \<^verbatim>\<open>client.post\<close> is not reached), or
  the cancellation of the awaited request (\<^verbatim>\<open>asyncio.CancelledError\<close>, which is not an
  \<^verbatim>\<open>Exception\<close>).
\<close>

datatype chat_outcome =
    Content string
  | HttpError string string
  | RequestFailed string
  | CallRaised string
  | Cancelled string

text \<open>
  What \<^verbatim>\<open>await self._simple_ai_call(prompt)\<close> is for its caller: the returned text, an
  \<^verbatim>\<open>Exception\<close> with its message, or an exception outside \<^verbatim>\<open>Exception\<close>.
\<close>

datatype call_result = Returned string | Threw string | Escaped string

text \<open>
  The environment: what the engine calls and this repository does not implement. The pandas
  entries are functions of their arguments; the entries that touch the world take it and
  return it. \<open>env_clock k\<close> is what \<^verbatim>\<open>datetime.now().strftime("%H:%M:%S")\<close> gives at the
  \<open>k\<close>-th call of \<^verbatim>\<open>WorkflowContext.log\<close>, \<open>env_uuid_hex k\<close> is
  \<^verbatim>\<open>uuid4().hex[:8]\<close> at the \<open>k\<close>-th call of \<^verbatim>\<open>_save_output\<close>, and \<open>env_to_text\<close>
  is the text of a cell under \<^verbatim>\<open>astype(str)\<close> and \<^verbatim>\<open>str()\<close>. \<open>env_upcast t row\<close> is
  the row as \<^verbatim>\<open>t.iterrows()\<close> yields it: a Series whose values have the common dtype of
  the columns of \<open>t\<close> (an integer of a frame that mixes int64 and float64 columns comes
  as a float).
\<close>

record 'w env =
  env_clock :: "nat \<Rightarrow> string"
  env_uuid_hex :: "nat \<Rightarrow> string"
  env_listdir :: "'w \<Rightarrow> error + string list"
  env_read_excel :: "'w \<Rightarrow> string \<Rightarrow> config \<Rightarrow> error + table"
  env_read_csv :: "'w \<Rightarrow> string \<Rightarrow> config \<Rightarrow> error + table"
  env_to_excel :: "'w \<Rightarrow> string \<Rightarrow> table \<Rightarrow> error option \<times> 'w"
  env_to_csv :: "'w \<Rightarrow> string \<Rightarrow> string \<Rightarrow> table \<Rightarrow> error option \<times> 'w"
  env_chat :: "'w \<Rightarrow> string \<Rightarrow> chat_outcome \<times> 'w"
  env_exec :: "string \<Rightarrow> ref list \<Rightarrow> 'w machine \<Rightarrow> (error + ref option) \<times> 'w machine"
  env_to_text :: "cell \<Rightarrow> string"
  env_upcast :: "table \<Rightarrow> cell list \<Rightarrow> cell list"
  env_query :: "string \<Rightarrow> table \<Rightarrow> error + table"
  env_eval :: "string \<Rightarrow> table \<Rightarrow> error + cell list"
  env_sort_values :: "string \<Rightarrow> bool \<Rightarrow> table \<Rightarrow> error + table"
  env_convert :: "string \<Rightarrow> cell list \<Rightarrow> error + cell list"
  env_dropna :: "string list \<Rightarrow> table \<Rightarrow> error + table"
  env_fillna :: "string \<Rightarrow> string list \<Rightarrow> cell option \<Rightarrow> table \<Rightarrow> error + table"
  env_drop_duplicates :: "string list \<Rightarrow> string \<Rightarrow> table \<Rightarrow> error + table"
  env_str_op :: "string \<Rightarrow> string \<Rightarrow> string \<Rightarrow> cell list \<Rightarrow> error + cell list"
  env_to_datetime :: "cell list \<Rightarrow> error + cell list"
  env_dt_part :: "string \<Rightarrow> cell list \<Rightarrow> error + cell list"
  env_dt_offset :: "string \<Rightarrow> cell list \<Rightarrow> error + cell list option"
  env_groupby_agg :: "string list \<Rightarrow> (string \<times> string) list \<Rightarrow> table \<Rightarrow> error + table"
  env_groupby_sum :: "string list \<Rightarrow> table \<Rightarrow> error + table"
  env_pivot_table :: "config \<Rightarrow> table \<Rightarrow> error + table"
  env_melt :: "config \<Rightarrow> table \<Rightarrow> error + table"
  env_merge :: "string \<Rightarrow> string list \<Rightarrow> string list \<Rightarrow> table \<Rightarrow> table \<Rightarrow> error + table"
  env_concat :: "config \<Rightarrow> table list \<Rightarrow> error + table"
  env_common_columns :: "string list \<Rightarrow> string list \<Rightarrow> string list"
  env_only_in :: "string list \<Rightarrow> table \<Rightarrow> table \<Rightarrow> error + table"

text \<open>
  \<^verbatim>\<open>df[name] = values\<close> on the frame at \<open>df\<close>: pandas raises when the values do not
  have one entry per row.
\<close>

definition store_column :: "ref \<Rightarrow> string \<Rightarrow> cell list \<Rightarrow> 'w machine \<Rightarrow> error option \<times> 'w machine" where
  "store_column df name vals m =
     (if length vals = nrows (deref m df)
      then (None, assign df (set_column name vals (deref m df)) m)
      else (Some (Raised ''Length of values does not match length of index''), m))"

text \<open>\<^verbatim>\<open>df[name] = f(df[name])\<close> for a pandas function \<open>f\<close> that may raise.\<close>

definition update_column ::
  "ref \<Rightarrow> string \<Rightarrow> error + cell list \<Rightarrow> 'w machine \<Rightarrow> error option \<times> 'w machine" where
  "update_column df name r m =
     (case r of Inl e \<Rightarrow> (Some e, m) | Inr vals \<Rightarrow> store_column df name vals m)"

section \<open>The operator library\<close>

text \<open>
  Every operator takes references to its input frames and the machine, and returns a
  reference to its result (or an error) and the machine it leaves.
\<close>

subsection \<open>Sources\<close>

text \<open>
  The loop \<^verbatim>\<open>for f in os.listdir(UPLOAD_DIR): if f.startswith(mapped_id)\<close> of both
  sources: the first entry that begins with the mapped id. An absent \<^verbatim>\<open>file_id\<close> is
  \<^verbatim>\<open>None\<close>, on which \<^verbatim>\<open>startswith\<close> raises at the first entry.
\<close>

definition resolve_file ::
  "'w env \<Rightarrow> 'w \<Rightarrow> string option \<Rightarrow> (string \<rightharpoonup> string) \<Rightarrow> error + string" where
  "resolve_file env w file_id file_mapping =
     (let mapped_id = (case file_id of None \<Rightarrow> None
                       | Some i \<Rightarrow> (case file_mapping i of None \<Rightarrow> Some i | Some j \<Rightarrow> Some j))
      in case env_listdir env w of
           Inl e \<Rightarrow> Inl e
         | Inr fs \<Rightarrow>
             (case mapped_id of
                None \<Rightarrow> (if fs = [] then Inl (FileNotFound file_id)
                         else Inl (Raised ''startswith first arg must be str or a tuple of str, not NoneType''))
              | Some p \<Rightarrow> (case find (\<lambda>f. startswith f p) fs of
                            None \<Rightarrow> Inl (FileNotFound file_id)
                          | Some f \<Rightarrow> Inr f)))"

definition execute_source ::
  "'w env \<Rightarrow> config \<Rightarrow> (string \<rightharpoonup> string) \<Rightarrow> 'w machine \<Rightarrow> (error + ref) \<times> 'w machine" where
  "execute_source env config file_mapping m =
     (case resolve_file env (world m) (cfg_file_id config) file_mapping of
        Inl e \<Rightarrow> (Inl e, m)
      | Inr f \<Rightarrow> alloc_result (env_read_excel env (world m) f config) m)"

definition execute_source_csv ::
  "'w env \<Rightarrow> config \<Rightarrow> (string \<rightharpoonup> string) \<Rightarrow> 'w machine \<Rightarrow> (error + ref) \<times> 'w machine" where
  "execute_source_csv env config file_mapping m =
     (case resolve_file env (world m) (cfg_file_id config) file_mapping of
        Inl e \<Rightarrow> (Inl e, m)
      | Inr f \<Rightarrow> alloc_result (env_read_csv env (world m) f config) m)"

subsection \<open>Cleaning: transform\<close>

text \<open>
  The six blocks of \<^verbatim>\<open>_execute_transform\<close>, in the order of the source. \<open>df\<close> is the
  frame that the variable \<^verbatim>\<open>df\<close> names when the block starts.
\<close>

definition transform_filter ::
  "'w env \<Rightarrow> config \<Rightarrow> ref \<Rightarrow> 'w machine \<Rightarrow> (error + ref) \<times> 'w machine" where
  "transform_filter env config df m =
     (case cfg_filter_code config of
        None \<Rightarrow> (Inr df, m)
      | Some filter_expr \<Rightarrow>
          if filter_expr \<noteq> [] then alloc_result (env_query env filter_expr (deref m df)) m
          else (Inr df, m))"

definition transform_drop :: "config \<Rightarrow> ref \<Rightarrow> 'w machine \<Rightarrow> ref \<times> 'w machine" where
  "transform_drop config df m =
     (let drop_cols = cfg_drop_columns config
      in if drop_cols \<noteq> []
         then alloc (pd_drop (filter (\<lambda>c. c \<in> set (columns (deref m df))) drop_cols) (deref m df)) m
         else (df, m))"

text \<open>
  One calculation: \<^verbatim>\<open>try: df[target] = df.eval(formula)\<close> with \<^verbatim>\<open>except: pass\<close>.
\<close>

definition apply_calculation ::
  "'w env \<Rightarrow> ref \<Rightarrow> string option \<times> string option \<Rightarrow> 'w machine \<Rightarrow> 'w machine" where
  "apply_calculation env df calc m =
     (case calc of
        (Some target, Some formula) \<Rightarrow>
          if target \<noteq> [] \<and> formula \<noteq> []
          then snd (update_column df target (env_eval env formula (deref m df)) m)
          else m
      | _ \<Rightarrow> m)"

definition transform_calculations :: "'w env \<Rightarrow> config \<Rightarrow> ref \<Rightarrow> 'w machine \<Rightarrow> 'w machine" where
  "transform_calculations env config df m = fold (apply_calculation env df) (cfg_calculations config) m"

definition transform_rename :: "config \<Rightarrow> ref \<Rightarrow> 'w machine \<Rightarrow> ref \<times> 'w machine" where
  "transform_rename config df m =
     (if cfg_rename_map config \<noteq> [] then alloc (pd_rename (cfg_rename_map config) (deref m df)) m
      else (df, m))"

definition transform_select :: "config \<Rightarrow> ref \<Rightarrow> 'w machine \<Rightarrow> ref \<times> 'w machine" where
  "transform_select config df m =
     (let selected_cols = cfg_selected_columns config
      in if selected_cols \<noteq> []
         then (let cols_to_keep = filter (\<lambda>c. c \<in> set (columns (deref m df))) selected_cols
               in if cols_to_keep \<noteq> [] then alloc (pd_select cols_to_keep (deref m df)) m
                  else (df, m))
         else (df, m))"

definition transform_sort ::
  "'w env \<Rightarrow> config \<Rightarrow> ref \<Rightarrow> 'w machine \<Rightarrow> (error + ref) \<times> 'w machine" where
  "transform_sort env config df m =
     (let sort_order = (case cfg_sort_order config of None \<Rightarrow> ''asc'' | Some s \<Rightarrow> s)
      in case cfg_sort_by config of
           None \<Rightarrow> (Inr df, m)
         | Some sort_by \<Rightarrow>
             if sort_by \<noteq> [] \<and> sort_by \<in> set (columns (deref m df))
             then alloc_result (env_sort_values env sort_by (sort_order = ''asc'') (deref m df)) m
             else (Inr df, m))"

definition execute_transform ::
  "'w env \<Rightarrow> ref \<Rightarrow> config \<Rightarrow> 'w machine \<Rightarrow> (error + ref) \<times> 'w machine" where
  "execute_transform env df0 config m0 =
     (let (df1, m1) = alloc (deref m0 df0) m0
      in case transform_filter env config df1 m1 of
           (Inl e, m2) \<Rightarrow> (Inl e, m2)
         | (Inr df2, m2) \<Rightarrow>
             (let (df3, m3) = transform_drop config df2 m2;
                  m4 = transform_calculations env config df3 m3;
                  (df5, m5) = transform_rename config df3 m4;
                  (df6, m6) = transform_select config df5 m5
              in transform_sort env config df6 m6))"

subsection \<open>Cleaning: the other unary operators\<close>

text \<open>
  One conversion of \<^verbatim>\<open>_execute_type_convert\<close>; the assignment is inside
  \<^verbatim>\<open>try ... except: pass\<close>. A \<^verbatim>\<open>dtype\<close> outside the five names does nothing.
\<close>

definition apply_conversion ::
  "'w env \<Rightarrow> ref \<Rightarrow> string option \<times> string option \<Rightarrow> 'w machine \<Rightarrow> 'w machine" where
  "apply_conversion env df conv m =
     (case conv of
        (Some col, Some dtype) \<Rightarrow>
          if col \<noteq> [] \<and> dtype \<noteq> [] \<and> col \<in> set (columns (deref m df))
             \<and> dtype \<in> set [''int'', ''float'', ''str'', ''datetime'', ''bool'']
          then snd (update_column df col (env_convert env dtype (column col (deref m df))) m)
          else m
      | _ \<Rightarrow> m)"

definition execute_type_convert ::
  "'w env \<Rightarrow> ref \<Rightarrow> config \<Rightarrow> 'w machine \<Rightarrow> (error + ref) \<times> 'w machine" where
  "execute_type_convert env df0 config m0 =
     (let (df, m) = alloc (deref m0 df0) m0
      in (Inr df, fold (apply_conversion env df) (cfg_conversions config) m))"

text \<open>
  \<^verbatim>\<open>_execute_fill_na\<close>: \<^verbatim>\<open>drop\<close> rebinds \<^verbatim>\<open>df\<close> to a new frame, the five filling
  strategies assign into the copy, any other strategy returns the copy.
\<close>

definition execute_fill_na ::
  "'w env \<Rightarrow> ref \<Rightarrow> config \<Rightarrow> 'w machine \<Rightarrow> (error + ref) \<times> 'w machine" where
  "execute_fill_na env df0 config m0 =
     (let (df, m) = alloc (deref m0 df0) m0;
          strategy = (case cfg_strategy config of None \<Rightarrow> ''drop'' | Some s \<Rightarrow> s);
          target_cols = (if truthy_names (cfg_columns config)
                         then (case cfg_columns config of None \<Rightarrow> [] | Some v \<Rightarrow> as_list v)
                         else columns (deref m df))
      in if strategy = ''drop'' then alloc_result (env_dropna env target_cols (deref m df)) m
         else if strategy \<in> set [''fill_value'', ''ffill'', ''bfill'', ''mean'', ''median'']
         then (case env_fillna env strategy target_cols (cfg_fill_value config) (deref m df) of
                 Inl e \<Rightarrow> (Inl e, m)
               | Inr t \<Rightarrow> (Inr df, assign df t m))
         else (Inr df, m))"

definition execute_deduplicate ::
  "'w env \<Rightarrow> ref \<Rightarrow> config \<Rightarrow> 'w machine \<Rightarrow> (error + ref) \<times> 'w machine" where
  "execute_deduplicate env df config m =
     (let subset = cfg_subset config;
          keep = (case cfg_keep config of None \<Rightarrow> ''first'' | Some k \<Rightarrow> k)
      in alloc_result (env_drop_duplicates env subset keep (deref m df)) m)"

definition execute_text_process ::
  "'w env \<Rightarrow> ref \<Rightarrow> config \<Rightarrow> 'w machine \<Rightarrow> (error + ref) \<times> 'w machine" where
  "execute_text_process env df0 config m0 =
     (let (df, m) = alloc (deref m0 df0) m0;
          pattern = (case cfg_pattern config of None \<Rightarrow> [] | Some p \<Rightarrow> p);
          replacement = (case cfg_replacement config of None \<Rightarrow> [] | Some r \<Rightarrow> r);
          operation = (case cfg_operation config of None \<Rightarrow> [] | Some p \<Rightarrow> p)
      in case cfg_column config of
           None \<Rightarrow> (Inr df, m)
         | Some col \<Rightarrow>
             if col = [] \<or> col \<notin> set (columns (deref m df)) then (Inr df, m)
             else if cfg_operation config \<noteq> None
                     \<and> operation \<in> set [''trim'', ''lower'', ''upper'', ''replace'']
             then (case update_column df col
                          (env_str_op env operation pattern replacement (column col (deref m df))) m of
                     (Some e, m') \<Rightarrow> (Inl e, m')
                   | (None, m') \<Rightarrow> (Inr df, m'))
             else if cfg_operation config = Some ''extract''
             then (case update_column df (col @ ''_extracted'')
                          (env_str_op env ''extract'' pattern replacement (column col (deref m df))) m of
                     (Some e, m') \<Rightarrow> (Inl e, m')
                   | (None, m') \<Rightarrow> (Inr df, m'))
             else (Inr df, m))"

text \<open>The suffixes of the columns that \<^verbatim>\<open>_execute_date_process\<close> adds (UTF-8).\<close>

definition suffix_year :: string where
  "suffix_year = [CHR 0x5F, CHR 0xE5, CHR 0xB9, CHR 0xB4]"

definition suffix_month :: string where
  "suffix_month = [CHR 0x5F, CHR 0xE6, CHR 0x9C, CHR 0x88]"

definition suffix_day :: string where
  "suffix_day = [CHR 0x5F, CHR 0xE6, CHR 0x97, CHR 0xA5]"

definition suffix_weekday :: string where
  "suffix_weekday = [CHR 0x5F, CHR 0xE5, CHR 0x91, CHR 0xA8, CHR 0xE5, CHR 0x87, CHR 0xA0]"

definition suffix_quarter :: string where
  "suffix_quarter = [CHR 0x5F, CHR 0xE5, CHR 0xAD, CHR 0xA3, CHR 0xE5, CHR 0xBA, CHR 0xA6]"

definition extract_suffix :: "string \<Rightarrow> string option" where
  "extract_suffix ext =
     (if ext = ''year'' then Some suffix_year
      else if ext = ''month'' then Some suffix_month
      else if ext = ''day'' then Some suffix_day
      else if ext = ''weekday'' then Some suffix_weekday
      else if ext = ''quarter'' then Some suffix_quarter
      else None)"

text \<open>The loop \<^verbatim>\<open>for ext in extracts\<close>: each part is assigned into the copy.\<close>

fun date_extracts ::
  "'w env \<Rightarrow> ref \<Rightarrow> string \<Rightarrow> string list \<Rightarrow> 'w machine \<Rightarrow> error option \<times> 'w machine" where
  "date_extracts env df col [] m = (None, m)"
| "date_extracts env df col (ext # exts) m =
     (case extract_suffix ext of
        None \<Rightarrow> date_extracts env df col exts m
      | Some sfx \<Rightarrow>
          (case update_column df (col @ sfx) (env_dt_part env ext (column col (deref m df))) m of
             (Some e, m') \<Rightarrow> (Some e, m')
           | (None, m') \<Rightarrow> date_extracts env df col exts m'))"

text \<open>
  The offset block: \<open>env_dt_offset\<close> is the regular expression match and the shift; it
  gives \<open>None\<close> when the offset does not match or names no known unit.
\<close>

definition date_offset ::
  "'w env \<Rightarrow> ref \<Rightarrow> string \<Rightarrow> string \<Rightarrow> 'w machine \<Rightarrow> error option \<times> 'w machine" where
  "date_offset env df col offset m =
     (if offset \<noteq> []
      then (case env_dt_offset env offset (column col (deref m df)) of
              Inl e \<Rightarrow> (Some e, m)
            | Inr None \<Rightarrow> (None, m)
            | Inr (Some vals) \<Rightarrow> store_column df col vals m)
      else (None, m))"

definition execute_date_process ::
  "'w env \<Rightarrow> ref \<Rightarrow> config \<Rightarrow> 'w machine \<Rightarrow> (error + ref) \<times> 'w machine" where
  "execute_date_process env df0 config m0 =
     (let (df, m) = alloc (deref m0 df0) m0;
          extracts = cfg_extract config;
          offset = (case cfg_offset config of None \<Rightarrow> [] | Some s \<Rightarrow> s)
      in case cfg_column config of
           None \<Rightarrow> (Inr df, m)
         | Some col \<Rightarrow>
             if col = [] \<or> col \<notin> set (columns (deref m df)) then (Inr df, m)
             else (case update_column df col (env_to_datetime env (column col (deref m df))) m of
                     (Some e, m1) \<Rightarrow> (Inl e, m1)
                   | (None, m1) \<Rightarrow>
                       (case date_extracts env df col extracts m1 of
                          (Some e, m2) \<Rightarrow> (Inl e, m2)
                        | (None, m2) \<Rightarrow>
                            (case date_offset env df col offset m2 of
                               (Some e, m3) \<Rightarrow> (Inl e, m3)
                             | (None, m3) \<Rightarrow> (Inr df, m3)))))"

subsection \<open>Analysis\<close>

text \<open>
  The loop of \<^verbatim>\<open>_execute_group_aggregate\<close> that fills \<^verbatim>\<open>agg_dict\<close> and
  \<^verbatim>\<open>rename_dict\<close>; an aggregation is the triple of its \<^verbatim>\<open>column\<close>, \<^verbatim>\<open>func\<close> and
  \<^verbatim>\<open>alias\<close>.
\<close>

definition agg_entry ::
  "string list \<Rightarrow> string option \<times> string option \<times> string option
   \<Rightarrow> (string \<times> string) list \<times> (string \<times> string) list
   \<Rightarrow> (string \<times> string) list \<times> (string \<times> string) list" where
  "agg_entry cols agg dicts =
     (case agg of (column_opt, func_opt, alias_opt) \<Rightarrow>
        (case column_opt of
           None \<Rightarrow> dicts
         | Some col \<Rightarrow>
             (let func = (case func_opt of None \<Rightarrow> ''sum'' | Some f \<Rightarrow> f);
                  alias = (case alias_opt of None \<Rightarrow> col @ ''_'' @ func | Some a \<Rightarrow> a)
              in if col \<noteq> [] \<and> col \<in> set cols
                 then (AList.update col func (fst dicts), AList.update col alias (snd dicts))
                 else dicts)))"

definition execute_group_aggregate ::
  "'w env \<Rightarrow> ref \<Rightarrow> config \<Rightarrow> 'w machine \<Rightarrow> (error + ref) \<times> 'w machine" where
  "execute_group_aggregate env df config m =
     (let group_by = cfg_group_by config;
          (agg_dict, rename_dict) =
             fold (agg_entry (columns (deref m df))) (cfg_aggregations config) ([], [])
      in if group_by = [] then (Inr df, m)
         else if agg_dict \<noteq> []
         then (case alloc_result (env_groupby_agg env group_by agg_dict (deref m df)) m of
                 (Inl e, m1) \<Rightarrow> (Inl e, m1)
               | (Inr result, m1) \<Rightarrow>
                   (let (renamed, m2) = alloc (pd_rename rename_dict (deref m1 result)) m1
                    in (Inr renamed, m2)))
         else alloc_result (env_groupby_sum env group_by (deref m df)) m)"

definition execute_pivot ::
  "'w env \<Rightarrow> ref \<Rightarrow> config \<Rightarrow> 'w machine \<Rightarrow> (error + ref) \<times> 'w machine" where
  "execute_pivot env df config m =
     (if cfg_index config = [] \<or> \<not> truthy_names (cfg_columns config)
         \<or> \<not> truthy_names (cfg_values config)
      then (Inr df, m)
      else alloc_result (env_pivot_table env config (deref m df)) m)"

definition execute_unpivot ::
  "'w env \<Rightarrow> ref \<Rightarrow> config \<Rightarrow> 'w machine \<Rightarrow> (error + ref) \<times> 'w machine" where
  "execute_unpivot env df config m = alloc_result (env_melt env config (deref m df)) m"

subsection \<open>Multi-table operators: join, concat, diff\<close>

text \<open>
  The loops of \<^verbatim>\<open>_execute_join\<close> and \<^verbatim>\<open>_execute_reconcile\<close> that turn key columns
  into text, in place: \<^verbatim>\<open>df[col] = df[col].astype(str)\<close>, after the check that the column
  exists (\<open>missing\<close> builds the error of the caller).
\<close>

definition astype_str :: "'w env \<Rightarrow> string \<Rightarrow> table \<Rightarrow> table" where
  "astype_str env col t = set_column col (map (\<lambda>c. StrV (env_to_text env c)) (column col t)) t"

fun coerce_keys ::
  "'w env \<Rightarrow> (string \<Rightarrow> string list \<Rightarrow> error) \<Rightarrow> ref \<Rightarrow> string list \<Rightarrow> 'w machine
   \<Rightarrow> error option \<times> 'w machine" where
  "coerce_keys env missing df [] m = (None, m)"
| "coerce_keys env missing df (col # cols) m =
     (if col \<notin> set (columns (deref m df)) then (Some (missing col (columns (deref m df))), m)
      else coerce_keys env missing df cols (assign df (astype_str env col (deref m df)) m))"

text \<open>
  \<^verbatim>\<open>for l, r in zip(left_on, right_on): if l != r and r in result.columns:
  result = result.drop(columns=[r])\<close>
\<close>

fun drop_right_keys :: "(string \<times> string) list \<Rightarrow> ref \<Rightarrow> 'w machine \<Rightarrow> ref \<times> 'w machine" where
  "drop_right_keys [] result m = (result, m)"
| "drop_right_keys ((l, r) # ps) result m =
     (if l \<noteq> r \<and> r \<in> set (columns (deref m result))
      then (let (result', m') = alloc (pd_drop [r] (deref m result)) m
            in drop_right_keys ps result' m')
      else drop_right_keys ps result m)"

definition execute_join ::
  "'w env \<Rightarrow> ref \<Rightarrow> ref \<Rightarrow> config \<Rightarrow> 'w machine \<Rightarrow> (error + ref) \<times> 'w machine" where
  "execute_join env df1_0 df2_0 config m0 =
     (let how0 = (case cfg_how config of None \<Rightarrow> ''inner'' | Some h \<Rightarrow> h);
          how = (if how0 = ''full_outer'' then ''outer'' else how0);
          left_on = or_else_names (cfg_left_on config) (cfg_on config);
          right_on = or_else_names (cfg_right_on config) (cfg_on config)
      in if \<not> truthy_names left_on \<or> \<not> truthy_names right_on then (Inl JoinNoKeys, m0)
         else
           (let left_on = (case left_on of None \<Rightarrow> [] | Some v \<Rightarrow> as_list v);
                right_on = (case right_on of None \<Rightarrow> [] | Some v \<Rightarrow> as_list v);
                (df1, m1) = alloc (deref m0 df1_0) m0;
                (df2, m2) = alloc (deref m1 df2_0) m1
            in case coerce_keys env JoinLeftMissing df1 left_on m2 of
                 (Some e, m3) \<Rightarrow> (Inl e, m3)
               | (None, m3) \<Rightarrow>
                   (case coerce_keys env JoinRightMissing df2 right_on m3 of
                      (Some e, m4) \<Rightarrow> (Inl e, m4)
                    | (None, m4) \<Rightarrow>
                        (case alloc_result
                                (env_merge env how left_on right_on (deref m4 df1) (deref m4 df2)) m4 of
                           (Inl e, m5) \<Rightarrow> (Inl e, m5)
                         | (Inr result, m5) \<Rightarrow>
                             (let (result', m6) = drop_right_keys (zip left_on right_on) result m5
                              in (Inr result', m6))))))"

definition execute_concat ::
  "'w env \<Rightarrow> ref list \<Rightarrow> config \<Rightarrow> 'w machine \<Rightarrow> (error + ref) \<times> 'w machine" where
  "execute_concat env dfs config m = alloc_result (env_concat env config (map (deref m) dfs)) m"

text \<open>The two tags of \<^verbatim>\<open>_diff_status\<close> (UTF-8).\<close>

definition only_in_1 :: string where
  "only_in_1 = [CHR 0xE4, CHR 0xBB, CHR 0x85, CHR 0xE5, CHR 0x9C, CHR 0xA8, CHR 0xE8, CHR 0xA1,
                CHR 0xA8, CHR 0x31]"

definition only_in_2 :: string where
  "only_in_2 = [CHR 0xE4, CHR 0xBB, CHR 0x85, CHR 0xE5, CHR 0x9C, CHR 0xA8, CHR 0xE8, CHR 0xA1,
                CHR 0xA8, CHR 0x32]"

text \<open>
  \<^verbatim>\<open>_execute_diff\<close>: \<open>env_only_in\<close> is the frame \<^verbatim>\<open>df1[~df1_keys.isin(df2_keys)]\<close>
  (it raises when a compare column is missing), \<open>env_common_columns\<close> the order in which
  \<^verbatim>\<open>list(set(df1.columns) & set(df2.columns))\<close> lists the common names. Each side is copied
  and tagged in place; the result is the concatenation of the two copies.
\<close>

definition execute_diff ::
  "'w env \<Rightarrow> ref \<Rightarrow> ref \<Rightarrow> config \<Rightarrow> 'w machine \<Rightarrow> (error + ref) \<times> 'w machine" where
  "execute_diff env df1 df2 config m =
     (let compare_columns =
            (if cfg_compare_columns config = []
             then env_common_columns env (columns (deref m df1)) (columns (deref m df2))
             else cfg_compare_columns config)
      in case alloc_result (env_only_in env compare_columns (deref m df1) (deref m df2)) m of
           (Inl e, m1) \<Rightarrow> (Inl e, m1)
         | (Inr only_in_df1, m1) \<Rightarrow>
             (let m2 = assign only_in_df1
                         (set_column ''_diff_status''
                            (replicate (nrows (deref m1 only_in_df1)) (StrV only_in_1))
                            (deref m1 only_in_df1)) m1
              in case alloc_result (env_only_in env compare_columns (deref m2 df2) (deref m2 df1)) m2 of
                   (Inl e, m3) \<Rightarrow> (Inl e, m3)
                 | (Inr only_in_df2, m3) \<Rightarrow>
                     (let m4 = assign only_in_df2
                                 (set_column ''_diff_status''
                                    (replicate (nrows (deref m3 only_in_df2)) (StrV only_in_2))
                                    (deref m3 only_in_df2)) m3
                      in alloc_result
                           (env_concat env (empty_config\<lparr>cfg_ignore_index := Some True\<rparr>)
                              [deref m4 only_in_df1, deref m4 only_in_df2]) m4)))"

subsection \<open>Multi-table operators: vlookup\<close>

text \<open>
  \<^verbatim>\<open>pd.merge(left, right, left_on=left_key, right_on=right_key, how='left')\<close> on one key
  column per side. Every left row, in the order of the left frame, is paired with each right
  row that has the same key, in the order of the right frame, or once with nulls when there
  is none. When both keys have the same name the result has one key column; names that occur
  on both sides otherwise get the suffixes \<^verbatim>\<open>_x\<close> and \<^verbatim>\<open>_y\<close>, and pandas raises a
  MergeError when the suffixed names are not unique (the frames handed to an operator have
  unique column names).
\<close>

definition add_suffix :: "string \<Rightarrow> string list \<Rightarrow> string list \<Rightarrow> string list" where
  "add_suffix sfx overlap cols = map (\<lambda>c. if c \<in> set overlap then c @ sfx else c) cols"

definition merge_left :: "string \<Rightarrow> string \<Rightarrow> table \<Rightarrow> table \<Rightarrow> error + table" where
  "merge_left left_key right_key l r =
     (let same = (left_key = right_key);
          rcols = (if same then filter (\<lambda>c. c \<noteq> right_key) (columns r) else columns r);
          rpart = (\<lambda>row. if same
                         then map snd (filter (\<lambda>p. fst p \<noteq> right_key) (zip (columns r) row))
                         else row);
          overlap = filter (\<lambda>c. c \<in> set rcols) (columns l);
          cols = add_suffix ''_x'' overlap (columns l) @ add_suffix ''_y'' overlap rcols;
          nulls = replicate (length rcols) Null;
          matches = (\<lambda>lrow. filter (\<lambda>rrow. cell_at right_key (columns r) rrow
                                             = cell_at left_key (columns l) lrow) (rows r));
          out = concat (map (\<lambda>lrow. if matches lrow = [] then [lrow @ nulls]
                                     else map (\<lambda>rrow. lrow @ rpart rrow) (matches lrow)) (rows l))
      in if distinct cols then Inr \<lparr>columns = cols, rows = out\<rparr>
         else Inl (Raised ''MergeError''))"

definition execute_vlookup ::
  "'w env \<Rightarrow> ref \<Rightarrow> ref \<Rightarrow> config \<Rightarrow> 'w machine \<Rightarrow> (error + ref) \<times> 'w machine" where
  "execute_vlookup env main_df0 lookup_df0 config m0 =
     (let left_key = or_else (cfg_left_key config) (cfg_lookup_key config);
          right_key = or_else (or_else (cfg_right_key config) (cfg_lookup_key config)) left_key;
          return_columns = (if cfg_columns_to_get config \<noteq> [] then cfg_columns_to_get config
                            else cfg_return_columns config)
      in case left_key of
           None \<Rightarrow> (Inl VlookupNoLeftKey, m0)
         | Some left_key \<Rightarrow>
             if left_key = [] then (Inl VlookupNoLeftKey, m0)
             else (case right_key of
                     None \<Rightarrow> (Inl VlookupNoRightKey, m0)
                   | Some right_key \<Rightarrow>
                       if right_key = [] then (Inl VlookupNoRightKey, m0)
                       else
                         (let (main_df, m1) = alloc (deref m0 main_df0) m0;
                              (lookup_df, m2) = alloc (deref m1 lookup_df0) m1
                          in if left_key \<notin> set (columns (deref m2 main_df))
                             then (Inl (VlookupMainMissing left_key (columns (deref m2 main_df))), m2)
                             else if right_key \<notin> set (columns (deref m2 lookup_df))
                             then (Inl (VlookupLookupMissing right_key (columns (deref m2 lookup_df))), m2)
                             else
                               (let m3 = assign main_df (astype_str env left_key (deref m2 main_df)) m2;
                                    m4 = assign lookup_df (astype_str env right_key (deref m3 lookup_df)) m3;
                                    lookup_cols = columns (deref m4 lookup_df);
                                    main_cols = columns (deref m4 main_df);
                                    valid0 = filter (\<lambda>c. c \<in> set lookup_cols \<and> c \<noteq> right_key) return_columns;
                                    valid_return_columns =
                                      (if valid0 = []
                                       then filter (\<lambda>c. c \<noteq> right_key \<and> c \<notin> set main_cols) lookup_cols
                                       else valid0);
                                    cols_to_merge = right_key # valid_return_columns
                                in case alloc_result
                                          (merge_left left_key right_key (deref m4 main_df)
                                             (pd_select cols_to_merge (deref m4 lookup_df))) m4 of
                                     (Inl e, m5) \<Rightarrow> (Inl e, m5)
                                   | (Inr result, m5) \<Rightarrow>
                                       if left_key \<noteq> right_key
                                          \<and> right_key \<in> set (columns (deref m5 result))
                                       then (let (result', m6) = alloc (pd_drop [right_key] (deref m5 result)) m5
                                             in (Inr result', m6))
                                       else (Inr result, m5)))))"

subsection \<open>Multi-table operators: reconcile\<close>

text \<open>The synthetic column names and the two verdicts of \<^verbatim>\<open>_execute_reconcile\<close> (UTF-8).\<close>

definition col_detail_total :: string where
  "col_detail_total = [CHR 0xE6, CHR 0x98, CHR 0x8E, CHR 0xE7, CHR 0xBB, CHR 0x86, CHR 0xE6, CHR 0xB1,
     CHR 0x87, CHR 0xE6, CHR 0x80, CHR 0xBB, CHR 0xE9, CHR 0x87, CHR 0x91, CHR 0xE9, CHR 0xA2, CHR 0x9D]"

definition col_summary_total :: string where
  "col_summary_total = [CHR 0xE6, CHR 0xB1, CHR 0x87, CHR 0xE6, CHR 0x80, CHR 0xBB, CHR 0xE8, CHR 0xA1,
     CHR 0xA8, CHR 0xE9, CHR 0x87, CHR 0x91, CHR 0xE9, CHR 0xA2, CHR 0x9D]"

definition col_difference :: string where
  "col_difference = [CHR 0xE5, CHR 0xB7, CHR 0xAE, CHR 0xE9, CHR 0xA2, CHR 0x9D]"

definition col_abs_difference :: string where
  "col_abs_difference = [CHR 0xE5, CHR 0xB7, CHR 0xAE, CHR 0xE9, CHR 0xA2, CHR 0x9D, CHR 0xE7, CHR 0xBB,
     CHR 0x9D, CHR 0xE5, CHR 0xAF, CHR 0xB9, CHR 0xE5, CHR 0x80, CHR 0xBC]"

definition col_verdict :: string where
  "col_verdict = [CHR 0xE6, CHR 0xA0, CHR 0xB8, CHR 0xE7, CHR 0xAE, CHR 0x97, CHR 0xE7, CHR 0xBB,
     CHR 0x93, CHR 0xE6, CHR 0x9E, CHR 0x9C]"

definition verdict_match :: string where
  "verdict_match = [CHR 0xE2, CHR 0x9C, CHR 0x85, CHR 0x20, CHR 0xE4, CHR 0xB8, CHR 0x80, CHR 0xE8,
     CHR 0x87, CHR 0xB4]"

definition verdict_mismatch :: string where
  "verdict_mismatch = [CHR 0xE2, CHR 0x9D, CHR 0x8C, CHR 0x20, CHR 0xE4, CHR 0xB8, CHR 0x8D, CHR 0xE4,
     CHR 0xB8, CHR 0x80, CHR 0xE8, CHR 0x87, CHR 0xB4]"

text \<open>
  The number in a cell. Results of sums and differences are written back as \<open>FloatV\<close>:
  the distinction between int64 and float64 results is not modelled.
\<close>

definition num_of :: "cell \<Rightarrow> rat option" where
  "num_of c = (case c of IntV i \<Rightarrow> Some (of_int i) | FloatV x \<Rightarrow> Some x
               | BoolV b \<Rightarrow> Some (if b then 1 else 0) | _ \<Rightarrow> None)"

text \<open>
  The order in which pandas sorts group keys: by value within numbers and within strings
  (code points); nulls and numbers before strings.
\<close>

fun str_le :: "string \<Rightarrow> string \<Rightarrow> bool" where
  "str_le [] t = True"
| "str_le (c # cs) [] = False"
| "str_le (c # cs) (d # ds) = (if c = d then str_le cs ds else (of_char c :: nat) < of_char d)"

definition cell_rank :: "cell \<Rightarrow> nat" where
  "cell_rank c = (case c of Null \<Rightarrow> 0 | StrV s \<Rightarrow> 2 | _ \<Rightarrow> 1)"

definition cell_le :: "cell \<Rightarrow> cell \<Rightarrow> bool" where
  "cell_le a b =
     (if cell_rank a \<noteq> cell_rank b then cell_rank a < cell_rank b
      else (case (a, b) of
              (StrV s, StrV t) \<Rightarrow> str_le s t
            | _ \<Rightarrow> (case (num_of a, num_of b) of (Some x, Some y) \<Rightarrow> x \<le> y | _ \<Rightarrow> True)))"

fun key_le :: "cell list \<Rightarrow> cell list \<Rightarrow> bool" where
  "key_le [] k = True"
| "key_le (a # as) [] = False"
| "key_le (a # as) (b # bs) = (if a = b then key_le as bs else cell_le a b)"

fun insort_by :: "('a \<Rightarrow> 'a \<Rightarrow> bool) \<Rightarrow> 'a \<Rightarrow> 'a list \<Rightarrow> 'a list" where
  "insort_by le x [] = [x]"
| "insort_by le x (y # ys) = (if le x y then x # y # ys else y # insort_by le x ys)"

definition sort_by :: "('a \<Rightarrow> 'a \<Rightarrow> bool) \<Rightarrow> 'a list \<Rightarrow> 'a list" where
  "sort_by le xs = foldr (insort_by le) xs []"

text \<open>The first error of a list of results, or all the values.\<close>

fun collect :: "(error + 'a) list \<Rightarrow> error + 'a list" where
  "collect [] = Inr []"
| "collect (Inl e # rs) = Inl e"
| "collect (Inr x # rs) = (case collect rs of Inl e \<Rightarrow> Inl e | Inr xs \<Rightarrow> Inr (x # xs))"

text \<open>
  The sum of a group: nulls are skipped; a cell that is not a number makes the sum, or the
  subtraction that follows it, raise a TypeError.
\<close>

definition sum_cells :: "cell list \<Rightarrow> error + rat" where
  "sum_cells vs =
     (if list_ex (\<lambda>v. v \<noteq> Null \<and> num_of v = None) vs
      then Inl (Raised ''unsupported operand type(s)'')
      else Inr (sum_list (map (\<lambda>v. case num_of v of None \<Rightarrow> 0 | Some x \<Rightarrow> x) vs)))"

definition key_of :: "string list \<Rightarrow> string list \<Rightarrow> cell list \<Rightarrow> cell list" where
  "key_of keys cols row = map (\<lambda>k. cell_at k cols row) keys"

text \<open>
  \<^verbatim>\<open>df.groupby(keys)[amount].sum().reset_index()\<close>: rows with a null key are dropped,
  the groups come sorted by key, and \<^verbatim>\<open>reset_index\<close> raises when the amount column is one
  of the keys or a key is repeated.
\<close>

definition group_sum :: "string list \<Rightarrow> string \<Rightarrow> table \<Rightarrow> error + table" where
  "group_sum keys amount t =
     (if amount \<in> set keys \<or> \<not> distinct keys then Inl (Raised ''cannot insert, already exists'')
      else
        (let kept = filter (\<lambda>row. Null \<notin> set (key_of keys (columns t) row)) (rows t);
             groups = sort_by key_le (remdups (map (key_of keys (columns t)) kept));
             totals = collect (map (\<lambda>g. sum_cells (map (cell_at amount (columns t))
                                   (filter (\<lambda>row. key_of keys (columns t) row = g) kept))) groups)
         in case totals of
              Inl e \<Rightarrow> Inl e
            | Inr tots \<Rightarrow> Inr \<lparr>columns = keys @ [amount],
                               rows = map (\<lambda>(g, total). g @ [FloatV total]) (zip groups tots)\<rparr>))"

text \<open>
  \<^verbatim>\<open>pd.merge(left, right, on=keys, how='outer')\<close> for frames whose other column names
  differ: one row group per key in sorted key order; a key on both sides gives every pair of
  its left and right rows, a key on one side the rows of that side with nulls for the other.
\<close>

definition merge_outer :: "string list \<Rightarrow> table \<Rightarrow> table \<Rightarrow> table" where
  "merge_outer keys l r =
     (let lkey = key_of keys (columns l);
          rkey = key_of keys (columns r);
          rrest = (\<lambda>row. map snd (filter (\<lambda>p. fst p \<notin> set keys) (zip (columns r) row)));
          rcols = filter (\<lambda>c. c \<notin> set keys) (columns r);
          from_right = (\<lambda>row. map (\<lambda>c. if c \<in> set keys then cell_at c (columns r) row else Null)
                                  (columns l));
          all_keys = sort_by key_le (remdups (map lkey (rows l) @ map rkey (rows r)));
          group = (\<lambda>k. (let ls = filter (\<lambda>row. lkey row = k) (rows l);
                             rs = filter (\<lambda>row. rkey row = k) (rows r)
                         in if rs = [] then map (\<lambda>lrow. lrow @ replicate (length rcols) Null) ls
                            else if ls = [] then map (\<lambda>rrow. from_right rrow @ rrest rrow) rs
                            else concat (map (\<lambda>lrow. map (\<lambda>rrow. lrow @ rrest rrow) rs) ls)))
      in \<lparr>columns = columns l @ rcols, rows = concat (map group all_keys)\<rparr>)"

text \<open>Sequencing of steps that assign in place and may raise.\<close>

definition then_do ::
  "error option \<times> 'w machine \<Rightarrow> ('w machine \<Rightarrow> error option \<times> 'w machine)
   \<Rightarrow> error option \<times> 'w machine" where
  "then_do r f = (case r of (Some e, m) \<Rightarrow> (Some e, m) | (None, m) \<Rightarrow> f m)"

definition str_value :: "string option \<Rightarrow> string" where
  "str_value v = (case v of None \<Rightarrow> [] | Some s \<Rightarrow> s)"

definition names_value :: "names option \<Rightarrow> string list" where
  "names_value v = (case v of None \<Rightarrow> [] | Some n \<Rightarrow> if truthy_names (Some n) then as_list n else [])"

text \<open>The cell arithmetic of steps 5 to 7 (a null is NaN: it propagates and compares false).\<close>

definition fill_zero :: "cell \<Rightarrow> cell" where
  "fill_zero c = (if c = Null then IntV 0 else c)"

definition sub_cells :: "cell \<Rightarrow> cell \<Rightarrow> error + cell" where
  "sub_cells a b =
     (if a = Null \<or> b = Null then Inr Null
      else (case (num_of a, num_of b) of
              (Some x, Some y) \<Rightarrow> Inr (FloatV (x - y))
            | _ \<Rightarrow> Inl (Raised ''unsupported operand type(s)'')))"

definition abs_cell :: "cell \<Rightarrow> cell" where
  "abs_cell c = (case num_of c of None \<Rightarrow> Null | Some x \<Rightarrow> FloatV \<bar>x\<bar>)"

definition verdict_of :: "rat \<Rightarrow> cell \<Rightarrow> cell" where
  "verdict_of tolerance c =
     (case num_of c of
        None \<Rightarrow> StrV verdict_mismatch
      | Some x \<Rightarrow> if x \<le> tolerance then StrV verdict_match else StrV verdict_mismatch)"

definition exceeds :: "rat \<Rightarrow> cell \<Rightarrow> bool" where
  "exceeds tolerance c = (case num_of c of None \<Rightarrow> False | Some x \<Rightarrow> x > tolerance)"

text \<open>The validation loop over the join keys.\<close>

fun check_keys :: "string list \<Rightarrow> table \<Rightarrow> table \<Rightarrow> error option" where
  "check_keys [] detail summary = None"
| "check_keys (key # keys) detail summary =
     (if key \<notin> set (columns detail) then Some (ReconcileDetailKeyMissing key (columns detail))
      else if key \<notin> set (columns summary)
      then Some (ReconcileSummaryKeyMissing key (columns summary))
      else check_keys keys detail summary)"

text \<open>
  Step 3: both frames are the operator's own (the grouped detail and the renamed projection
  of the summary); the key columns are turned into text in place. A key that the projection
  has lost raises a KeyError.
\<close>

fun coerce_both ::
  "'w env \<Rightarrow> ref \<Rightarrow> ref \<Rightarrow> string list \<Rightarrow> 'w machine \<Rightarrow> error option \<times> 'w machine" where
  "coerce_both env detail_grouped summary_renamed [] m = (None, m)"
| "coerce_both env detail_grouped summary_renamed (key # keys) m =
     (if key \<notin> set (columns (deref m detail_grouped)) then (Some (Raised ''KeyError''), m)
      else (let m1 = assign detail_grouped (astype_str env key (deref m detail_grouped)) m
            in if key \<notin> set (columns (deref m1 summary_renamed)) then (Some (Raised ''KeyError''), m1)
               else coerce_both env detail_grouped summary_renamed keys
                      (assign summary_renamed (astype_str env key (deref m1 summary_renamed)) m1)))"

text \<open>Steps 5 and 6: five assignments into the merged frame.\<close>

definition reconcile_columns :: "rat \<Rightarrow> ref \<Rightarrow> 'w machine \<Rightarrow> error option \<times> 'w machine" where
  "reconcile_columns tolerance merged m0 =
     then_do (store_column merged col_detail_total
                (map fill_zero (column col_detail_total (deref m0 merged))) m0) (\<lambda>m1.
     then_do (store_column merged col_summary_total
                (map fill_zero (column col_summary_total (deref m1 merged))) m1) (\<lambda>m2.
     then_do (update_column merged col_difference
                (collect (map (\<lambda>(a, b). sub_cells a b)
                   (zip (column col_detail_total (deref m2 merged))
                        (column col_summary_total (deref m2 merged))))) m2) (\<lambda>m3.
     then_do (store_column merged col_abs_difference
                (map abs_cell (column col_difference (deref m3 merged))) m3) (\<lambda>m4.
     store_column merged col_verdict
       (map (verdict_of tolerance) (column col_abs_difference (deref m4 merged))) m4))))"

text \<open>The operator after its configuration has been read.\<close>

definition reconcile_body ::
  "'w env \<Rightarrow> ref \<Rightarrow> ref \<Rightarrow> string list \<Rightarrow> string \<Rightarrow> string \<Rightarrow> string \<Rightarrow> rat \<Rightarrow> 'w machine
   \<Rightarrow> (error + ref) \<times> 'w machine" where
  "reconcile_body env detail_df summary_df join_keys left_column right_column output_mode tolerance m0 =
     (let detail = deref m0 detail_df; summary = deref m0 summary_df
      in case check_keys join_keys detail summary of
           Some e \<Rightarrow> (Inl e, m0)
         | None \<Rightarrow>
             if left_column \<notin> set (columns detail)
             then (Inl (ReconcileDetailAmountMissing left_column (columns detail)), m0)
             else if right_column \<notin> set (columns summary)
             then (Inl (ReconcileSummaryAmountMissing right_column (columns summary)), m0)
             else
               (case alloc_result (group_sum join_keys left_column detail) m0 of
                  (Inl e, m1) \<Rightarrow> (Inl e, m1)
                | (Inr grouped, m1) \<Rightarrow>
                    (let (detail_grouped, m2) =
                           alloc (pd_rename [(left_column, col_detail_total)] (deref m1 grouped)) m1;
                         (summary_part, m3) =
                           alloc (pd_select (join_keys @ [right_column]) (deref m2 summary_df)) m2;
                         (summary_renamed, m4) =
                           alloc (pd_rename [(right_column, col_summary_total)] (deref m3 summary_part)) m3
                     in case coerce_both env detail_grouped summary_renamed join_keys m4 of
                          (Some e, m5) \<Rightarrow> (Inl e, m5)
                        | (None, m5) \<Rightarrow>
                            (let (merged, m6) =
                                   alloc (merge_outer join_keys (deref m5 detail_grouped)
                                            (deref m5 summary_renamed)) m5
                             in case reconcile_columns tolerance merged m6 of
                                  (Some e, m7) \<Rightarrow> (Inl e, m7)
                                | (None, m7) \<Rightarrow>
                                    (let (result, m8) =
                                           alloc (if output_mode = ''diff_only''
                                                  then pd_filter_rows
                                                         (\<lambda>row. exceeds tolerance
                                                            (cell_at col_abs_difference
                                                               (columns (deref m7 merged)) row))
                                                         (deref m7 merged)
                                                  else deref m7 merged) m7;
                                         (result', m9) =
                                           alloc (pd_drop [col_abs_difference] (deref m8 result)) m8
                                     in (Inr result', m9))))))"

definition execute_reconcile ::
  "'w env \<Rightarrow> ref \<Rightarrow> ref \<Rightarrow> config \<Rightarrow> 'w machine \<Rightarrow> (error + ref) \<times> 'w machine" where
  "execute_reconcile env detail_df summary_df config m0 =
     (let join_keys = (if truthy_names (cfg_join_keys config) then names_value (cfg_join_keys config)
                       else names_value (cfg_detail_key config));
          left_column = str_value (or_else (cfg_left_column config) (cfg_detail_amount config));
          right_column = str_value (or_else (cfg_right_column config) (cfg_summary_amount config));
          output_mode = (case cfg_output_mode config of None \<Rightarrow> ''diff_only'' | Some s \<Rightarrow> s);
          tolerance = (case cfg_tolerance config of None \<Rightarrow> 0 | Some x \<Rightarrow> x)
      in if join_keys = [] then (Inl ReconcileNoKeys, m0)
         else if left_column = [] then (Inl ReconcileNoLeft, m0)
         else if right_column = [] then (Inl ReconcileNoRight, m0)
         else reconcile_body env detail_df summary_df join_keys left_column right_column
                output_mode tolerance m0)"

subsection \<open>The script node and the per-row model node\<close>

definition execute_code ::
  "'w env \<Rightarrow> ref list \<Rightarrow> config \<Rightarrow> 'w machine \<Rightarrow> (error + ref) \<times> 'w machine" where
  "execute_code env input_dfs config m =
     (case cfg_python_code config of
        None \<Rightarrow> (Inl CodeEmpty, m)
      | Some code \<Rightarrow>
          if code = [] then (Inl CodeEmpty, m)
          else (case env_exec env code input_dfs m of
                  (Inl e, m') \<Rightarrow> (Inl e, m')
                | (Inr None, m') \<Rightarrow> (Inl CodeNoResult, m')
                | (Inr (Some result), m') \<Rightarrow> (Inr result, m')))"

text \<open>The fixed texts of \<^verbatim>\<open>_simple_ai_call\<close> and \<^verbatim>\<open>_execute_ai_agent\<close> (UTF-8).\<close>

definition msg_http_failed :: string where
  "msg_http_failed = [CHR 0x41, CHR 0x49, CHR 0xE8, CHR 0xB0, CHR 0x83, CHR 0xE7, CHR 0x94, CHR 0xA8,
     CHR 0xE5, CHR 0xA4, CHR 0xB1, CHR 0xE8, CHR 0xB4, CHR 0xA5, CHR 0x3A, CHR 0x20, CHR 0x48, CHR 0x54,
     CHR 0x54, CHR 0x50, CHR 0x20]"

definition msg_call_failed :: string where
  "msg_call_failed = [CHR 0xE8, CHR 0xB0, CHR 0x83, CHR 0xE7, CHR 0x94, CHR 0xA8, CHR 0xE5, CHR 0xA4,
     CHR 0xB1, CHR 0xE8, CHR 0xB4, CHR 0xA5, CHR 0x3A, CHR 0x20]"

definition row_block_header :: string where
  "row_block_header = [CHR 0x0A, CHR 0x0A, CHR 0xE5, CHR 0xBD, CHR 0x93, CHR 0xE5, CHR 0x89, CHR 0x8D,
     CHR 0xE6, CHR 0x95, CHR 0xB0, CHR 0xE6, CHR 0x8D, CHR 0xAE, CHR 0xE8, CHR 0xA1, CHR 0x8C, CHR 0x3A,
     CHR 0x0A]"

text \<open>
  \<^verbatim>\<open>_simple_ai_call\<close>: one chat-completion call. Everything that happens inside its
  \<^verbatim>\<open>try ... except Exception\<close> block comes back as text; an exception of the two imports
  before the block, and a cancellation inside it, leave the function. A request is recorded
  in \<open>requests\<close> when \<^verbatim>\<open>client.post\<close> is reached: not when an import raised.
\<close>

definition simple_ai_call ::
  "'w env \<Rightarrow> string \<Rightarrow> 'w machine \<Rightarrow> call_result \<times> 'w machine" where
  "simple_ai_call env prompt m =
     (let (reply, w') = env_chat env (world m) prompt;
          posted = m\<lparr>world := w', requests := requests m @ [prompt]\<rparr>
      in case reply of
           Content text \<Rightarrow> (Returned text, posted)
         | HttpError status body \<Rightarrow> (Returned (msg_http_failed @ status @ '' - '' @ body), posted)
         | RequestFailed e \<Rightarrow> (Returned (msg_call_failed @ e), posted)
         | CallRaised e \<Rightarrow> (Threw e, m\<lparr>world := w'\<rparr>)
         | Cancelled e \<Rightarrow> (Escaped e, posted))"

definition placeholder :: "string \<Rightarrow> string" where
  "placeholder col = ''{{'' @ col @ ''}}''"

text \<open>
  The prompt of one row; \<open>row\<close> is the row that \<^verbatim>\<open>iterrows()\<close> yields, and
  \<^verbatim>\<open>str(row[col])\<close> the text of its value under the column.
\<close>

definition row_prompt :: "'w env \<Rightarrow> string \<Rightarrow> string list \<Rightarrow> cell list \<Rightarrow> string" where
  "row_prompt env prompt_template cols row =
     (let substituted =
            fold (\<lambda>col p. if contains p (placeholder col)
                           then replace_all (placeholder col) (env_to_text env (cell_at col cols row)) p
                           else p) cols prompt_template;
          has_placeholder = list_ex (\<lambda>col. contains prompt_template (placeholder col)) cols
      in if \<not> has_placeholder
         then prompt_template @ row_block_header
              @ join_str [CHR 0x0A]
                  (map (\<lambda>col. ''- '' @ col @ '': '' @ env_to_text env (cell_at col cols row)) cols)
         else substituted)"

text \<open>
  The loop over \<^verbatim>\<open>df_head.iterrows()\<close>: one awaited call after the other. The handler
  \<^verbatim>\<open>except Exception\<close> of the loop turns an exception of a call into the text
  \<^verbatim>\<open>Error: \<close> followed by its message; an exception outside \<^verbatim>\<open>Exception\<close> ends the
  loop and leaves the operator.
\<close>

fun ask_rows ::
  "'w env \<Rightarrow> string \<Rightarrow> string list \<Rightarrow> cell list list \<Rightarrow> 'w machine
   \<Rightarrow> (error + string list) \<times> 'w machine" where
  "ask_rows env prompt_template cols [] m = (Inr [], m)"
| "ask_rows env prompt_template cols (row # rest) m =
     (case simple_ai_call env (row_prompt env prompt_template cols row) m of
        (Escaped e, m1) \<Rightarrow> (Inl (BaseRaised e), m1)
      | (Returned ai_resp, m1) \<Rightarrow>
          (case ask_rows env prompt_template cols rest m1 of
             (Inl e, m2) \<Rightarrow> (Inl e, m2)
           | (Inr answers, m2) \<Rightarrow> (Inr (ai_resp # answers), m2))
      | (Threw e, m1) \<Rightarrow>
          (case ask_rows env prompt_template cols rest m1 of
             (Inl e', m2) \<Rightarrow> (Inl e', m2)
           | (Inr answers, m2) \<Rightarrow> (Inr ((''Error: '' @ e) # answers), m2)))"

definition execute_ai_agent ::
  "'w env \<Rightarrow> ref \<Rightarrow> config \<Rightarrow> 'w machine \<Rightarrow> (error + ref) \<times> 'w machine" where
  "execute_ai_agent env df config m0 =
     (let prompt_template = str_value (cfg_prompt config);
          target_column = (case cfg_target_column config of None \<Rightarrow> ''AI_Result'' | Some c \<Rightarrow> c)
      in if prompt_template = [] then (Inl PromptEmpty, m0)
         else
           (let limit = min (nrows (deref m0 df)) 20;
                (df_head, m1) = alloc (pd_head limit (deref m0 df)) m0
            in case ask_rows env prompt_template (columns (deref m1 df))
                      (map (env_upcast env (deref m1 df_head)) (rows (deref m1 df_head))) m1 of
                 (Inl e, m2) \<Rightarrow> (Inl e, m2)
               | (Inr results, m2) \<Rightarrow>
                   (case store_column df_head target_column (map StrV results) m2 of
                      (Some e, m3) \<Rightarrow> (Inl e, m3)
                    | (None, m3) \<Rightarrow> (Inr df_head, m3))))"

subsection \<open>Sinks\<close>

text \<open>
  \<^verbatim>\<open>_save_output\<close>; \<open>k\<close> counts the earlier calls of the run, since the default file name
  draws a fresh uuid at every call.
\<close>

definition save_output ::
  "'w env \<Rightarrow> ref \<Rightarrow> config \<Rightarrow> string option \<Rightarrow> nat \<Rightarrow> 'w machine \<Rightarrow> (error + string) \<times> 'w machine" where
  "save_output env df config node_type k m =
     (let filename0 = (case cfg_filename config of None \<Rightarrow> ''output_'' @ env_uuid_hex env k
                       | Some f \<Rightarrow> f)
      in if node_type = Some ''output_csv''
         then (let filename = (if \<not> endswith filename0 ''.csv'' then filename0 @ ''.csv'' else filename0);
                   encoding = (case cfg_encoding config of None \<Rightarrow> ''utf-8'' | Some e \<Rightarrow> e);
                   (failure, w') = env_to_csv env (world m) filename encoding (deref m df)
               in ((case failure of Some e \<Rightarrow> Inl e | None \<Rightarrow> Inr filename), m\<lparr>world := w'\<rparr>))
         else (let filename = (if \<not> endswith filename0 ''.xlsx'' then filename0 @ ''.xlsx'' else filename0);
                   (failure, w') = env_to_excel env (world m) filename (deref m df)
               in ((case failure of Some e \<Rightarrow> Inl e | None \<Rightarrow> Inr filename), m\<lparr>world := w'\<rparr>)))"

subsection \<open>The dispatcher\<close>

definition some_result :: "(error + ref) \<times> 'w machine \<Rightarrow> (error + ref option) \<times> 'w machine" where
  "some_result r = (case r of (Inl e, m) \<Rightarrow> (Inl e, m) | (Inr a, m) \<Rightarrow> (Inr (Some a), m))"

text \<open>\<^verbatim>\<open>if not input_dfs: return None\<close>, then the operator on \<^verbatim>\<open>input_dfs[0]\<close>.\<close>

definition unary ::
  "(ref \<Rightarrow> 'w machine \<Rightarrow> (error + ref) \<times> 'w machine) \<Rightarrow> ref list \<Rightarrow> 'w machine
   \<Rightarrow> (error + ref option) \<times> 'w machine" where
  "unary f input_dfs m = (case input_dfs of [] \<Rightarrow> (Inr None, m) | df # _ \<Rightarrow> some_result (f df m))"

text \<open>
  \<^verbatim>\<open>if len(input_dfs) < 2: raise ValueError(...)\<close>, then the operator on the first two
  inputs.
\<close>

definition binary ::
  "error \<Rightarrow> (ref \<Rightarrow> ref \<Rightarrow> 'w machine \<Rightarrow> (error + ref) \<times> 'w machine) \<Rightarrow> ref list \<Rightarrow> 'w machine
   \<Rightarrow> (error + ref option) \<times> 'w machine" where
  "binary arity_error f input_dfs m =
     (case input_dfs of df1 # df2 # _ \<Rightarrow> some_result (f df1 df2 m) | _ \<Rightarrow> (Inl arity_error, m))"

definition execute_node_by_type ::
  "'w env \<Rightarrow> string option \<Rightarrow> config \<Rightarrow> ref list \<Rightarrow> (string \<rightharpoonup> string) \<Rightarrow> 'w machine
   \<Rightarrow> (error + ref option) \<times> 'w machine" where
  "execute_node_by_type env node_type config input_dfs file_mapping m =
     (if node_type = Some ''source'' then some_result (execute_source env config file_mapping m)
      else if node_type = Some ''source_csv''
      then some_result (execute_source_csv env config file_mapping m)
      else if node_type = Some ''transform''
      then unary (\<lambda>df. execute_transform env df config) input_dfs m
      else if node_type = Some ''type_convert''
      then unary (\<lambda>df. execute_type_convert env df config) input_dfs m
      else if node_type = Some ''fill_na''
      then unary (\<lambda>df. execute_fill_na env df config) input_dfs m
      else if node_type = Some ''deduplicate''
      then unary (\<lambda>df. execute_deduplicate env df config) input_dfs m
      else if node_type = Some ''text_process''
      then unary (\<lambda>df. execute_text_process env df config) input_dfs m
      else if node_type = Some ''date_process''
      then unary (\<lambda>df. execute_date_process env df config) input_dfs m
      else if node_type = Some ''group_aggregate''
      then unary (\<lambda>df. execute_group_aggregate env df config) input_dfs m
      else if node_type = Some ''pivot''
      then unary (\<lambda>df. execute_pivot env df config) input_dfs m
      else if node_type = Some ''unpivot''
      then unary (\<lambda>df. execute_unpivot env df config) input_dfs m
      else if node_type = Some ''join''
      then binary JoinArity (\<lambda>df1 df2. execute_join env df1 df2 config) input_dfs m
      else if node_type = Some ''concat''
      then (if input_dfs = [] then (Inr None, m)
            else some_result (execute_concat env input_dfs config m))
      else if node_type = Some ''vlookup''
      then binary VlookupArity (\<lambda>df1 df2. execute_vlookup env df1 df2 config) input_dfs m
      else if node_type = Some ''diff''
      then binary DiffArity (\<lambda>df1 df2. execute_diff env df1 df2 config) input_dfs m
      else if node_type = Some ''reconcile''
      then binary ReconcileArity (\<lambda>df1 df2. execute_reconcile env df1 df2 config) input_dfs m
      else if node_type = Some ''code'' then some_result (execute_code env input_dfs config m)
      else if node_type = Some ''ai_agent''
      then unary (\<lambda>df. execute_ai_agent env df config) input_dfs m
      else if node_type = Some ''output'' \<or> node_type = Some ''output_csv''
      then (case input_dfs of [] \<Rightarrow> (Inr None, m) | df # _ \<Rightarrow> (Inr (Some df), m))
      else (Inr None, m))"

section \<open>The graph document and the scheduler\<close>

text \<open>
  A node carries its type, label and config either at the top level or under the key
  \<^verbatim>\<open>data\<close>; an edge names its source and its target.
\<close>

record node_data =
  nd_type :: "string option"
  nd_label :: "string option"
  nd_config :: "config option"

record node =
  node_id :: string
  node_top :: node_data
  node_inner :: "node_data option"

record edge =
  source :: string
  target :: string

record workflow =
  nodes :: "node list"
  edges :: "edge list"

text \<open>
  The dictionaries \<^verbatim>\<open>adj\<close> and \<^verbatim>\<open>in_degree\<close> are association lists in insertion
  order; \<open>AList.update\<close> is the assignment \<^verbatim>\<open>d[k] = v\<close>.
\<close>

type_synonym adjacency = "(string \<times> string list) list"
type_synonym degrees = "(string \<times> int) list"

definition add_edge :: "edge \<Rightarrow> adjacency \<times> degrees \<Rightarrow> adjacency \<times> degrees" where
  "add_edge e g =
     (case (map_of (fst g) (source e), map_of (snd g) (target e)) of
        (Some ts, Some d) \<Rightarrow>
          (AList.update (source e) (ts @ [target e]) (fst g), AList.update (target e) (d + 1) (snd g))
      | _ \<Rightarrow> g)"

definition build_graph :: "node list \<Rightarrow> edge list \<Rightarrow> adjacency \<times> degrees" where
  "build_graph ns es =
     fold add_edge es
       (fold (\<lambda>n d. AList.update (node_id n) [] d) ns [],
        fold (\<lambda>n d. AList.update (node_id n) 0 d) ns [])"

text \<open>
  The inner loop \<^verbatim>\<open>for neighbor in adj[node_id]\<close>; a key that is missing from a
  dictionary raises a KeyError.
\<close>

fun relax :: "degrees \<Rightarrow> string list \<Rightarrow> string list \<Rightarrow> error + degrees \<times> string list" where
  "relax in_degree queue [] = Inr (in_degree, queue)"
| "relax in_degree queue (neighbor # rest) =
     (case map_of in_degree neighbor of
        None \<Rightarrow> Inl (Raised ''KeyError'')
      | Some d \<Rightarrow>
          relax (AList.update neighbor (d - 1) in_degree)
            (if d - 1 = 0 then queue @ [neighbor] else queue) rest)"

text \<open>The number of entries of \<^verbatim>\<open>in_degree\<close> that are still positive.\<close>

definition waiting :: "degrees \<Rightarrow> nat" where
  "waiting in_degree = length (filter (\<lambda>p. 0 < snd p) in_degree)"

lemma waiting_update:
  "map_of al k = Some d \<Longrightarrow>
   waiting (AList.update k v al) + (if 0 < d then 1 else 0) = waiting al + (if 0 < v then 1 else 0)"
  by (induction al) (auto simp: waiting_def)

lemma relax_measure:
  "relax in_degree queue nbs = Inr (in_degree', queue') \<Longrightarrow>
   length queue' + waiting in_degree' \<le> length queue + waiting in_degree"
proof (induction nbs arbitrary: in_degree queue)
  case Nil
  then show ?case by simp
next
  case (Cons nb nbs)
  from Cons.prems obtain d where d: "map_of in_degree nb = Some d"
    by (auto split: option.splits)
  let ?deg = "AList.update nb (d - 1) in_degree"
  let ?q = "if d - 1 = 0 then queue @ [nb] else queue"
  from Cons.prems d have "relax ?deg ?q nbs = Inr (in_degree', queue')" by simp
  from Cons.IH [OF this]
  have "length queue' + waiting in_degree' \<le> length ?q + waiting ?deg" .
  moreover have "length ?q + waiting ?deg \<le> length queue + waiting in_degree"
  proof (cases "d = 1")
    case True
    with waiting_update [OF d, of 0] show ?thesis by simp
  next
    case False
    with waiting_update [OF d, of "d - 1"] show ?thesis by (auto split: if_splits)
  qed
  ultimately show ?case by linarith
qed

text \<open>The loop \<^verbatim>\<open>while queue\<close> of the topological sort.\<close>

function kahn :: "adjacency \<Rightarrow> degrees \<Rightarrow> string list \<Rightarrow> string list \<Rightarrow> error + string list" where
  "kahn adj in_degree [] execution_order = Inr execution_order"
| "kahn adj in_degree (nid # queue) execution_order =
     (case map_of adj nid of
        None \<Rightarrow> Inl (Raised ''KeyError'')
      | Some neighbors \<Rightarrow>
          (case relax in_degree queue neighbors of
             Inl e \<Rightarrow> Inl e
           | Inr (in_degree', queue') \<Rightarrow> kahn adj in_degree' queue' (execution_order @ [nid])))"
  by pat_completeness auto
termination
proof (relation "measure (\<lambda>(adj, in_degree, queue, order). length queue + waiting in_degree)")
  show "wf (measure (\<lambda>(adj, in_degree, queue, order). length queue + waiting in_degree))" by simp
next
  fix adj :: adjacency and in_degree :: degrees and nid :: string and queue execution_order
    and neighbors x in_degree' queue'
  assume "relax in_degree queue neighbors = Inr x" and "(in_degree', queue') = x"
  then have "relax in_degree queue neighbors = Inr (in_degree', queue')" by simp
  from relax_measure [OF this]
  show "((adj, in_degree', queue', execution_order @ [nid]),
         (adj, in_degree, nid # queue, execution_order))
        \<in> measure (\<lambda>(adj, in_degree, queue, order). length queue + waiting in_degree)"
    by simp
qed

definition execution_order :: "workflow \<Rightarrow> error + string list" where
  "execution_order doc =
     (let (adj, in_degree) = build_graph (nodes doc) (edges doc);
          queue = filter (\<lambda>i. map_of in_degree i = Some 0) (map node_id (nodes doc))
      in kahn adj in_degree queue [])"

section \<open>The runner\<close>

text \<open>
  The run report records for each node a status and, once it has run, either a preview of
  its frame or its error. A log line is the time stamp of the clock and the event; the
  label of a node is its \<^verbatim>\<open>label\<close>, or else its type.
\<close>

datatype status = StatusPending | StatusSuccess | StatusError

record preview =
  pv_columns :: "string list"
  pv_data :: "(string \<times> cell) list list"
  pv_total_rows :: nat

datatype node_result = Result preview | Failure error

datatype log_event =
    NodeStarted "string option" string
  | NodeSucceeded "string option" nat
  | NodeFailed "string option" error

type_synonym log_line = "string \<times> log_event"

text \<open>
  The local variables of \<^verbatim>\<open>execute_workflow\<close> and its \<^verbatim>\<open>WorkflowContext\<close>;
  \<open>saves\<close> counts the calls of \<^verbatim>\<open>_save_output\<close>.
\<close>

record 'w run_state =
  machine :: "'w machine"
  ctx_results :: "string \<rightharpoonup> ref"
  ctx_logs :: "log_line list"
  output_file :: "string option"
  final_preview :: "preview option"
  node_results :: "string \<rightharpoonup> node_result"
  node_status :: "string \<rightharpoonup> status"
  saves :: nat

text \<open>\<^verbatim>\<open>WorkflowContext.log\<close>\<close>

definition log :: "'w env \<Rightarrow> log_event \<Rightarrow> 'w run_state \<Rightarrow> 'w run_state" where
  "log env event st = st\<lparr>ctx_logs := ctx_logs st @ [(env_clock env (length (ctx_logs st)), event)]\<rparr>"

definition preview_of :: "table \<Rightarrow> preview" where
  "preview_of t = \<lparr>pv_columns = columns t, pv_data = to_records t, pv_total_rows = nrows t\<rparr>"

definition head_preview_of :: "table \<Rightarrow> preview" where
  "head_preview_of t =
     \<lparr>pv_columns = columns t, pv_data = to_records (pd_head 100 t), pv_total_rows = nrows t\<rparr>"

text \<open>
  The handler \<^verbatim>\<open>except Exception as node_error\<close>, which raises again. An error that is
  not an \<^verbatim>\<open>Exception\<close> passes it by: nothing is recorded.
\<close>

definition fail_node ::
  "'w env \<Rightarrow> string \<Rightarrow> string option \<Rightarrow> error \<Rightarrow> 'w run_state \<Rightarrow> error option \<times> 'w run_state" where
  "fail_node env nid node_label e st =
     (if is_exception e
      then (Some e,
            log env (NodeFailed node_label e)
              (st\<lparr>node_status := (node_status st)(nid \<mapsto> StatusError),
                  node_results := (node_results st)(nid \<mapsto> Failure e)\<rparr>))
      else (Some e, st))"

text \<open>
  The inputs of a node: for every edge into it, in the order of the document, the stored
  frame of the edge's source if there is one.
\<close>

definition collect_inputs :: "edge list \<Rightarrow> string \<Rightarrow> (string \<rightharpoonup> ref) \<Rightarrow> ref list" where
  "collect_inputs es nid results =
     List.map_filter (\<lambda>e. if target e = nid then results (source e) else None) es"

text \<open>\<^verbatim>\<open>node['data'] if 'data' in node else node\<close>\<close>

definition data_of :: "node \<Rightarrow> node_data" where
  "data_of nd = (case node_inner nd of Some d \<Rightarrow> d | None \<Rightarrow> node_top nd)"

text \<open>One iteration of the loop \<^verbatim>\<open>for node_id in execution_order\<close>.\<close>

definition run_node ::
  "'w env \<Rightarrow> edge list \<Rightarrow> (string \<rightharpoonup> string) \<Rightarrow> string \<Rightarrow> node \<Rightarrow> 'w run_state
   \<Rightarrow> error option \<times> 'w run_state" where
  "run_node env es file_mapping nid nd st =
     (let data = data_of nd;
          node_type = nd_type data;
          node_label = (case nd_label data of Some l \<Rightarrow> Some l | None \<Rightarrow> node_type);
          node_config = (case nd_config data of Some c \<Rightarrow> c | None \<Rightarrow> empty_config);
          st1 = log env (NodeStarted node_label nid) st;
          input_dfs = collect_inputs es nid (ctx_results st1);
          (r, m) = execute_node_by_type env node_type node_config input_dfs file_mapping (machine st1);
          st2 = st1\<lparr>machine := m\<rparr>
      in case r of
           Inl e \<Rightarrow> fail_node env nid node_label e st2
         | Inr None \<Rightarrow> (None, st2\<lparr>node_status := (node_status st2)(nid \<mapsto> StatusSuccess)\<rparr>)
         | Inr (Some result_df) \<Rightarrow>
             (let st3 = log env (NodeSucceeded node_label (nrows (deref m result_df)))
                          (st2\<lparr>ctx_results := (ctx_results st2)(nid \<mapsto> result_df)\<rparr>);
                  st4 = st3\<lparr>node_status := (node_status st3)(nid \<mapsto> StatusSuccess),
                            node_results := (node_results st3)
                               (nid \<mapsto> Result (preview_of (deref m result_df)))\<rparr>
              in if node_type = Some ''output'' \<or> node_type = Some ''output_csv''
                 then (case save_output env result_df node_config node_type (saves st4) m of
                         (Inl e, m') \<Rightarrow>
                           fail_node env nid node_label e (st4\<lparr>machine := m', saves := Suc (saves st4)\<rparr>)
                       | (Inr filename, m') \<Rightarrow>
                           (None, st4\<lparr>machine := m', saves := Suc (saves st4),
                                      output_file := Some filename,
                                      final_preview := Some (head_preview_of (deref m result_df))\<rparr>))
                 else (None, st4)))"

text \<open>
  The loop: an id without a node is skipped, the first node that raises ends the loop with
  its error.
\<close>

fun run_nodes ::
  "'w env \<Rightarrow> edge list \<Rightarrow> (string \<rightharpoonup> node) \<Rightarrow> (string \<rightharpoonup> string) \<Rightarrow> string list \<Rightarrow> 'w run_state
   \<Rightarrow> error option \<times> 'w run_state" where
  "run_nodes env es node_map file_mapping [] st = (None, st)"
| "run_nodes env es node_map file_mapping (nid # rest) st =
     (case node_map nid of
        None \<Rightarrow> run_nodes env es node_map file_mapping rest st
      | Some nd \<Rightarrow>
          (case run_node env es file_mapping nid nd st of
             (Some e, st') \<Rightarrow> (Some e, st')
           | (None, st') \<Rightarrow> run_nodes env es node_map file_mapping rest st'))"

definition node_map_of :: "node list \<Rightarrow> (string \<rightharpoonup> node)" where
  "node_map_of ns = fold (\<lambda>n m. m(node_id n \<mapsto> n)) ns Map.empty"

definition initial_state :: "workflow \<Rightarrow> 'w \<Rightarrow> 'w run_state" where
  "initial_state doc w =
     \<lparr>machine = \<lparr>store = [], world = w, requests = []\<rparr>,
      ctx_results = Map.empty, ctx_logs = [], output_file = None, final_preview = None,
      node_results = Map.empty,
      node_status = fold (\<lambda>n s. s(node_id n \<mapsto> StatusPending)) (nodes doc) Map.empty,
      saves = 0\<rparr>"

record report =
  success :: bool
  rep_error :: "error option"
  rep_output_file :: "string option"
  rep_preview :: "preview option"
  rep_logs :: "log_line list"
  rep_node_status :: "string \<rightharpoonup> status"
  rep_node_results :: "string \<rightharpoonup> node_result"

text \<open>The two \<^verbatim>\<open>return\<close> statements: the report of a run that ended in state \<open>st\<close>.\<close>

definition report_of :: "error option \<Rightarrow> 'w run_state \<Rightarrow> report" where
  "report_of failure st =
     (case failure of
        None \<Rightarrow> \<lparr>success = True, rep_error = None, rep_output_file = output_file st,
                  rep_preview = final_preview st, rep_logs = ctx_logs st,
                  rep_node_status = node_status st, rep_node_results = node_results st\<rparr>
      | Some e \<Rightarrow> \<lparr>success = False, rep_error = Some e, rep_output_file = None,
                    rep_preview = None, rep_logs = ctx_logs st,
                    rep_node_status = node_status st, rep_node_results = node_results st\<rparr>)"

text \<open>
  The run up to the return statement. An exception of the scheduling code, which stands
  before the \<^verbatim>\<open>try\<close> block, would leave \<^verbatim>\<open>execute_workflow\<close>: it is the \<open>Inl\<close> result.
\<close>

definition run_workflow ::
  "'w env \<Rightarrow> workflow \<Rightarrow> (string \<rightharpoonup> string) \<Rightarrow> 'w \<Rightarrow> error + error option \<times> 'w run_state" where
  "run_workflow env doc file_mapping w =
     (case execution_order doc of
        Inl e \<Rightarrow> Inl e
      | Inr order \<Rightarrow>
          Inr (run_nodes env (edges doc) (node_map_of (nodes doc)) file_mapping order
                 (initial_state doc w)))"

text \<open>
  \<^verbatim>\<open>execute_workflow\<close>: the outer handler \<^verbatim>\<open>except Exception as e\<close> returns the report
  of the failure; an error that is not an \<^verbatim>\<open>Exception\<close> passes it by and leaves the
  function, as the \<open>Inl\<close> result.
\<close>

definition execute_workflow ::
  "'w env \<Rightarrow> workflow \<Rightarrow> (string \<rightharpoonup> string) \<Rightarrow> 'w \<Rightarrow> error + report" where
  "execute_workflow env doc file_mapping w =
     (case run_workflow env doc file_mapping w of
        Inl e \<Rightarrow> Inl e
      | Inr (None, st) \<Rightarrow> Inr (report_of None st)
      | Inr (Some e, st) \<Rightarrow> if is_exception e then Inr (report_of (Some e) st) else Inl e)"

section \<open>A sample environment\<close>

text \<open>
  A small environment on which the definitions can be evaluated. The world is the listing
  of the upload directory and every stored file holds the frame \<open>sample_frame\<close>.
  Integers, whole floats, strings, booleans and nulls have their Python text. Of the
  expression language of pandas it knows the comparison \<^verbatim>\<open>col > n\<close> in a query and the
  product \<^verbatim>\<open>col * n\<close> in a formula, for a column name and a natural number; sorting is the
  stable sort of the rows by one column. The model answers every prompt with \<^verbatim>\<open>re: \<close>
  and the prompt, except four: on \<^verbatim>\<open>fail\<close> the import of the client raises, on
  \<^verbatim>\<open>busy\<close> the server answers with status 500, on \<^verbatim>\<open>slow\<close> the request times out and
  on \<^verbatim>\<open>stop\<close> the awaited request is cancelled. Three scripts are known: one returns
  its first input, one empties its first input in place and returns it, one exits the
  interpreter. The remaining pandas entries, which the engine only passes through, are not
  available.
\<close>

definition digit :: "nat \<Rightarrow> char" where
  "digit d = (if d = 0 then CHR ''0'' else if d = 1 then CHR ''1'' else if d = 2 then CHR ''2''
     else if d = 3 then CHR ''3'' else if d = 4 then CHR ''4'' else if d = 5 then CHR ''5''
     else if d = 6 then CHR ''6'' else if d = 7 then CHR ''7'' else if d = 8 then CHR ''8''
     else CHR ''9'')"

function nat_text :: "nat \<Rightarrow> string" where
  "nat_text n = (if n < 10 then [digit n] else nat_text (n div 10) @ [digit (n mod 10)])"
  by pat_completeness auto
termination
  by (relation "measure id") auto

definition int_text :: "int \<Rightarrow> string" where
  "int_text i = (if i < 0 then CHR ''-'' # nat_text (nat (- i)) else nat_text (nat i))"

definition sample_text :: "cell \<Rightarrow> string" where
  "sample_text c =
     (case c of
        Null \<Rightarrow> ''nan''
      | IntV i \<Rightarrow> int_text i
      | FloatV x \<Rightarrow> (if x = of_int \<lfloor>x\<rfloor> then int_text \<lfloor>x\<rfloor> @ ''.0'' else ''float'')
      | StrV s \<Rightarrow> s
      | BoolV b \<Rightarrow> (if b then ''True'' else ''False''))"

definition sample_frame :: table where
  "sample_frame =
     \<lparr>columns = [''city'', ''amt''],
      rows = [[StrV ''A'', IntV 10], [StrV ''A'', IntV 20], [StrV ''B'', IntV 5]]\<rparr>"

text \<open>The text before and after the first occurrence of a separator; a natural number.\<close>

fun split_on :: "string \<Rightarrow> string \<Rightarrow> (string \<times> string) option" where
  "split_on sep [] = None"
| "split_on sep (c # cs) =
     (if prefix sep (c # cs) then Some ([], drop (length sep) (c # cs))
      else (case split_on sep cs of None \<Rightarrow> None | Some (a, b) \<Rightarrow> Some (c # a, b)))"

definition digit_value :: "char \<Rightarrow> nat option" where
  "digit_value c = map_of (zip ''0123456789'' [0 ..< 10]) c"

fun nat_of_digits :: "nat \<Rightarrow> string \<Rightarrow> nat option" where
  "nat_of_digits acc [] = Some acc"
| "nat_of_digits acc (c # cs) =
     (case digit_value c of None \<Rightarrow> None | Some d \<Rightarrow> nat_of_digits (10 * acc + d) cs)"

definition nat_of_text :: "string \<Rightarrow> nat option" where
  "nat_of_text s = (if s = [] then None else nat_of_digits 0 s)"

text \<open>A binary expression \<^verbatim>\<open>col op n\<close> over one column of a frame.\<close>

definition operands :: "string \<Rightarrow> string \<Rightarrow> table \<Rightarrow> error + string \<times> nat" where
  "operands op expr t =
     (case split_on op expr of
        None \<Rightarrow> Inl (Raised ''invalid syntax'')
      | Some (c, n) \<Rightarrow>
          (case nat_of_text n of
             None \<Rightarrow> Inl (Raised ''invalid syntax'')
           | Some k \<Rightarrow> if c \<in> set (columns t) then Inr (c, k)
                       else Inl (Raised (''name is not defined: '' @ c))))"

definition sample_query :: "string \<Rightarrow> table \<Rightarrow> error + table" where
  "sample_query expr t =
     (case operands '' > '' expr t of
        Inl e \<Rightarrow> Inl e
      | Inr (c, k) \<Rightarrow>
          Inr (t\<lparr>rows := filter (\<lambda>r. case cell_at c (columns t) r of
                                        IntV i \<Rightarrow> i > int k
                                      | FloatV x \<Rightarrow> x > of_nat k
                                      | _ \<Rightarrow> False) (rows t)\<rparr>))"

definition sample_eval :: "string \<Rightarrow> table \<Rightarrow> error + cell list" where
  "sample_eval expr t =
     (case operands '' * '' expr t of
        Inl e \<Rightarrow> Inl e
      | Inr (c, k) \<Rightarrow>
          collect (map (\<lambda>r. case cell_at c (columns t) r of
                              IntV i \<Rightarrow> Inr (IntV (i * int k))
                            | FloatV x \<Rightarrow> Inr (FloatV (x * of_nat k))
                            | Null \<Rightarrow> Inr Null
                            | _ \<Rightarrow> Inl (Raised ''unsupported operand type(s)'')) (rows t)))"

definition sample_sort :: "string \<Rightarrow> bool \<Rightarrow> table \<Rightarrow> error + table" where
  "sample_sort c ascending t =
     Inr (t\<lparr>rows := sort_by (\<lambda>a b. if ascending
                                     then cell_le (cell_at c (columns t) a) (cell_at c (columns t) b)
                                     else cell_le (cell_at c (columns t) b) (cell_at c (columns t) a))
                      (rows t)\<rparr>)"

text \<open>
  The rows of \<^verbatim>\<open>iterrows()\<close>: in a frame of numbers with a float or a null somewhere the
  common dtype is float64, and integers come as floats; otherwise the values come as they
  are.
\<close>

definition sample_upcast :: "table \<Rightarrow> cell list \<Rightarrow> cell list" where
  "sample_upcast t row =
     (let cells = concat (rows t)
      in if list_all (\<lambda>c. case c of IntV i \<Rightarrow> True | FloatV x \<Rightarrow> True | Null \<Rightarrow> True | _ \<Rightarrow> False) cells
            \<and> list_ex (\<lambda>c. case c of FloatV x \<Rightarrow> True | Null \<Rightarrow> True | _ \<Rightarrow> False) cells
         then map (\<lambda>c. case c of IntV i \<Rightarrow> FloatV (of_int i) | _ \<Rightarrow> c) row
         else row)"

definition sample_chat :: "string list \<Rightarrow> string \<Rightarrow> chat_outcome \<times> string list" where
  "sample_chat w p =
     (if p = ''fail'' then CallRaised ''No module named httpx''
      else if p = ''busy'' then HttpError ''500'' ''overloaded''
      else if p = ''slow'' then RequestFailed ''timed out''
      else if p = ''stop'' then Cancelled []
      else Content (''re: '' @ p), w)"

definition sample_exec ::
  "string \<Rightarrow> ref list \<Rightarrow> string list machine \<Rightarrow> (error + ref option) \<times> string list machine" where
  "sample_exec code inputs m =
     (if code = ''result = df'' then (Inr (case inputs of [] \<Rightarrow> None | a # _ \<Rightarrow> Some a), m)
      else if code = ''df.drop(df.index, inplace=True); result = df''
      then (case inputs of
              [] \<Rightarrow> (Inl (Raised ''NoneType object has no attribute drop''), m)
            | a # _ \<Rightarrow> (Inr (Some a), assign a ((deref m a)\<lparr>rows := []\<rparr>) m))
      else if code = ''raise SystemExit(1)'' then (Inl (BaseRaised ''1''), m)
      else (Inl (Raised ''invalid syntax''), m))"

definition sample_env :: "string list env" where
  "sample_env =
     \<lparr>env_clock = (\<lambda>k. ''12:00:00''),
      env_uuid_hex = (\<lambda>k. ''0a1b2c3d''),
      env_listdir = (\<lambda>w. Inr w),
      env_read_excel = (\<lambda>w f c. Inr sample_frame),
      env_read_csv = (\<lambda>w f c. Inr sample_frame),
      env_to_excel = (\<lambda>w f t. (None, w @ [f])),
      env_to_csv = (\<lambda>w f e t. (None, w @ [f])),
      env_chat = sample_chat,
      env_exec = sample_exec,
      env_to_text = sample_text,
      env_upcast = sample_upcast,
      env_query = sample_query,
      env_eval = sample_eval,
      env_sort_values = sample_sort,
      env_convert = (\<lambda>d vs. Inl (Raised ''unavailable'')),
      env_dropna = (\<lambda>cs t. Inl (Raised ''unavailable'')),
      env_fillna = (\<lambda>s cs v t. Inl (Raised ''unavailable'')),
      env_drop_duplicates = (\<lambda>cs k t. Inl (Raised ''unavailable'')),
      env_str_op = (\<lambda>o' p r vs. Inl (Raised ''unavailable'')),
      env_to_datetime = (\<lambda>vs. Inl (Raised ''unavailable'')),
      env_dt_part = (\<lambda>p vs. Inl (Raised ''unavailable'')),
      env_dt_offset = (\<lambda>p vs. Inl (Raised ''unavailable'')),
      env_groupby_agg = (\<lambda>g a t. Inl (Raised ''unavailable'')),
      env_groupby_sum = (\<lambda>g t. Inl (Raised ''unavailable'')),
      env_pivot_table = (\<lambda>c t. Inl (Raised ''unavailable'')),
      env_melt = (\<lambda>c t. Inl (Raised ''unavailable'')),
      env_merge = (\<lambda>h l r a b. Inl (Raised ''unavailable'')),
      env_concat = (\<lambda>c ts. Inl (Raised ''unavailable'')),
      env_common_columns = (\<lambda>a b. filter (\<lambda>c. c \<in> set b) a),
      env_only_in = (\<lambda>cs a b. Inl (Raised ''unavailable''))\<rparr>"

text \<open>A node whose fields stand at the top level.\<close>

definition plain_node :: "string \<Rightarrow> string \<Rightarrow> config \<Rightarrow> node" where
  "plain_node i t c =
     \<lparr>node_id = i, node_top = \<lparr>nd_type = Some t, nd_label = None, nd_config = Some c\<rparr>,
      node_inner = None\<rparr>"

definition empty_machine :: "string list machine" where
  "empty_machine = \<lparr>store = [], world = [], requests = []\<rparr>"

section \<open>The dispatcher on unknown node types\<close>

text \<open>The twenty type tags that \<^verbatim>\<open>_execute_node_by_type\<close> compares with.\<close>

definition operator_tags :: "string list" where
  "operator_tags = [''source'', ''source_csv'', ''transform'', ''type_convert'', ''fill_na'',
     ''deduplicate'', ''text_process'', ''date_process'', ''group_aggregate'', ''pivot'',
     ''unpivot'', ''join'', ''concat'', ''vlookup'', ''diff'', ''reconcile'', ''code'',
     ''ai_agent'', ''output'', ''output_csv'']"

lemma dispatch_unknown:
  assumes "t \<notin> Some ` set operator_tags"
  shows "execute_node_by_type env t config input_dfs fm m = (Inr None, m)"
  using assms unfolding execute_node_by_type_def operator_tags_def by auto

lemma run_node_unknown:
  assumes "nd_type (data_of nd) \<notin> Some ` set operator_tags"
  shows "run_node env es fm nid nd st =
           (None, (log env (NodeStarted (case nd_label (data_of nd) of Some l \<Rightarrow> Some l
                                         | None \<Rightarrow> nd_type (data_of nd)) nid) st)
                    \<lparr>node_status := (node_status st)(nid \<mapsto> StatusSuccess)\<rparr>)"
  using assms unfolding run_node_def
  by (simp add: dispatch_unknown Let_def log_def)

text \<open>
  Claim C10. A node whose type is none of the tags that the dispatcher knows (an absent
  type included) gets no frame from the dispatcher, which leaves the machine as it was. The
  runner then marks the node \<^verbatim>\<open>success\<close>, writes nothing into \<^verbatim>\<open>node_results\<close>, stores no
  result for it, and the loop goes on with the nodes that follow.
\<close>

theorem unknown_type_is_silent_success:
  assumes "nd_type (data_of nd) \<notin> Some ` set operator_tags"
    and "node_map nid = Some nd"
  shows "execute_node_by_type env (nd_type (data_of nd)) config input_dfs fm m = (Inr None, m)
       \<and> (\<exists>st'. run_node env es fm nid nd st = (None, st')
              \<and> node_status st' nid = Some StatusSuccess
              \<and> node_results st' = node_results st
              \<and> ctx_results st' = ctx_results st
              \<and> machine st' = machine st
              \<and> run_nodes env es node_map fm (nid # rest) st
                  = run_nodes env es node_map fm rest st')"
proof -
  have "execute_node_by_type env (nd_type (data_of nd)) config input_dfs fm m = (Inr None, m)"
    by (rule dispatch_unknown [OF assms(1)])
  moreover have "run_nodes env es node_map fm (nid # rest) st
      = run_nodes env es node_map fm rest (snd (run_node env es fm nid nd st))"
    using assms(2) by (simp add: run_node_unknown [OF assms(1)])
  ultimately show ?thesis
    by (simp add: run_node_unknown [OF assms(1)] log_def)
qed

theorem unknown_type_is_silent_success_witness:
  "nd_type (data_of (plain_node ''n1'' ''llm_row'' empty_config)) \<notin> Some ` set operator_tags
   \<and> execute_node_by_type sample_env (nd_type (data_of (plain_node ''n1'' ''llm_row'' empty_config)))
        empty_config [] Map.empty empty_machine = (Inr None, empty_machine)
   \<and> (\<exists>st'. run_node sample_env [] Map.empty ''n1'' (plain_node ''n1'' ''llm_row'' empty_config)
               (initial_state \<lparr>nodes = [plain_node ''n1'' ''llm_row'' empty_config], edges = []\<rparr> [])
             = (None, st')
          \<and> node_status st' ''n1'' = Some StatusSuccess
          \<and> node_results st' ''n1'' = None)"
proof -
  let ?nd = "plain_node ''n1'' ''llm_row'' empty_config"
  let ?st = "initial_state \<lparr>nodes = [?nd], edges = []\<rparr> ([] :: string list)"
  have h: "nd_type (data_of ?nd) \<notin> Some ` set operator_tags"
    by (simp add: plain_node_def data_of_def operator_tags_def)
  have k: "[''n1'' \<mapsto> ?nd] ''n1'' = Some ?nd" by simp
  have r: "node_results ?st ''n1'' = None" by (simp add: initial_state_def)
  from unknown_type_is_silent_success [where nd = ?nd and node_map = "[''n1'' \<mapsto> ?nd]"
      and nid = "''n1''" and env = sample_env and config = empty_config and input_dfs = "[]"
      and fm = Map.empty and m = empty_machine and es = "[]" and st = ?st and rest = "[]",
      OF h k]
  show ?thesis using h r by auto
qed

section \<open>The scheduler never fails and lists every node at most once\<close>

text \<open>
  The two dictionaries have the declared ids as their keys, every target in an adjacency
  list is a key, and the initial degrees are not negative: the lookups of the topological
  sort cannot raise.
\<close>

lemma map_of_fold_update_nodes:
  "map_of (fold (\<lambda>n d. AList.update (node_id n) v d) ns al) k =
     (if k \<in> node_id ` set ns then Some v else map_of al k)"
  by (induction ns arbitrary: al) (auto simp: update_conv')

definition graph_ok :: "adjacency \<Rightarrow> degrees \<Rightarrow> bool" where
  "graph_ok adj in_degree =
     ((\<forall>k. (map_of adj k = None) = (map_of in_degree k = None))
      \<and> (\<forall>k ts x. map_of adj k = Some ts \<longrightarrow> x \<in> set ts \<longrightarrow> map_of in_degree x \<noteq> None)
      \<and> (\<forall>k d. map_of in_degree k = Some d \<longrightarrow> 0 \<le> d))"

lemma add_edge_ok: "graph_ok (fst g) (snd g) \<Longrightarrow> graph_ok (fst (add_edge e g)) (snd (add_edge e g))"
  unfolding graph_ok_def add_edge_def
  by (fastforce simp: update_conv' split: option.splits if_splits)

lemma add_edge_dom: "(map_of (snd (add_edge e g)) k = None) = (map_of (snd g) k = None)"
  unfolding add_edge_def by (auto simp: update_conv' split: option.splits if_splits)

lemma fold_add_edge_ok:
  "graph_ok (fst g) (snd g) \<Longrightarrow> graph_ok (fst (fold add_edge es g)) (snd (fold add_edge es g))"
  by (induction es arbitrary: g) (auto simp: add_edge_ok)

lemma fold_add_edge_dom: "(map_of (snd (fold add_edge es g)) k = None) = (map_of (snd g) k = None)"
  by (induction es arbitrary: g) (auto simp: add_edge_dom)

lemma build_graph_ok: "graph_ok (fst (build_graph ns es)) (snd (build_graph ns es))"
  unfolding build_graph_def
  by (rule fold_add_edge_ok) (auto simp: graph_ok_def map_of_fold_update_nodes split: if_splits)

lemma build_graph_dom: "(map_of (snd (build_graph ns es)) k \<noteq> None) = (k \<in> node_id ` set ns)"
  unfolding build_graph_def fold_add_edge_dom
  by (auto simp: map_of_fold_update_nodes split: if_splits)

definition graph_keys :: "adjacency \<Rightarrow> degrees \<Rightarrow> bool" where
  "graph_keys adj in_degree =
     ((\<forall>k. (map_of adj k = None) = (map_of in_degree k = None))
      \<and> (\<forall>k ts x. map_of adj k = Some ts \<longrightarrow> x \<in> set ts \<longrightarrow> map_of in_degree x \<noteq> None))"

lemma graph_ok_keys: "graph_ok adj d \<Longrightarrow> graph_keys adj d"
  by (simp add: graph_ok_def graph_keys_def)

lemma graph_keys_cong:
  "graph_keys adj d \<Longrightarrow> (\<forall>k. (map_of d' k = None) = (map_of d k = None)) \<Longrightarrow> graph_keys adj d'"
  by (simp add: graph_keys_def)

definition kahn_inv :: "degrees \<Rightarrow> string list \<Rightarrow> bool" where
  "kahn_inv in_degree seen =
     (distinct seen
      \<and> (\<forall>k\<in>set seen. \<exists>d. map_of in_degree k = Some d \<and> d \<le> 0)
      \<and> (\<forall>k d. map_of in_degree k = Some d \<longrightarrow> k \<notin> set seen \<longrightarrow> 0 < d))"

lemma kahn_inv_step:
  assumes inv: "kahn_inv in_degree (order @ queue)" and d: "map_of in_degree nb = Some d"
  shows "kahn_inv (AList.update nb (d - 1) in_degree)
           (order @ (if d - 1 = 0 then queue @ [nb] else queue))"
proof (cases "nb \<in> set (order @ queue)")
  case True
  from inv True obtain d' where "map_of in_degree nb = Some d'" and "d' \<le> 0"
    unfolding kahn_inv_def by blast
  with d have "d \<le> 0" by simp
  with inv d True show ?thesis
    by (auto simp: kahn_inv_def update_conv')
next
  case False
  with inv d have pos: "0 < d" by (auto simp: kahn_inv_def)
  show ?thesis
  proof (cases "d = 1")
    case True
    with inv d False show ?thesis by (auto simp: kahn_inv_def update_conv')
  next
    case ne: False
    with pos have "0 < d - 1" by simp
    with inv d False ne show ?thesis by (auto simp: kahn_inv_def update_conv')
  qed
qed

lemma relax_inv:
  assumes "kahn_inv in_degree (order @ queue)" and "\<forall>x\<in>set nbs. map_of in_degree x \<noteq> None"
  shows "\<exists>in_degree' queue'. relax in_degree queue nbs = Inr (in_degree', queue')
           \<and> kahn_inv in_degree' (order @ queue')
           \<and> (\<forall>k. (map_of in_degree' k = None) = (map_of in_degree k = None))"
  using assms
proof (induction nbs arbitrary: in_degree queue)
  case Nil
  then show ?case by simp
next
  case (Cons nb nbs)
  from Cons.prems(2) obtain d where d: "map_of in_degree nb = Some d" by auto
  let ?deg = "AList.update nb (d - 1) in_degree"
  let ?q = "if d - 1 = 0 then queue @ [nb] else queue"
  have inv': "kahn_inv ?deg (order @ ?q)" by (rule kahn_inv_step [OF Cons.prems(1) d])
  have keys: "\<forall>k. (map_of ?deg k = None) = (map_of in_degree k = None)"
    using d by (auto simp: update_conv')
  with Cons.prems(2) have "\<forall>x\<in>set nbs. map_of ?deg x \<noteq> None" by simp
  from Cons.IH [OF inv' this] keys d show ?case by auto
qed

lemma relax_total:
  assumes "\<forall>x\<in>set nbs. map_of in_degree x \<noteq> None"
  shows "\<exists>in_degree' queue'. relax in_degree queue nbs = Inr (in_degree', queue')
           \<and> set queue' \<subseteq> set queue \<union> set nbs
           \<and> (\<forall>k. (map_of in_degree' k = None) = (map_of in_degree k = None))"
  using assms
proof (induction nbs arbitrary: in_degree queue)
  case Nil
  then show ?case by simp
next
  case (Cons nb nbs)
  from Cons.prems obtain d where d: "map_of in_degree nb = Some d" by auto
  let ?deg = "AList.update nb (d - 1) in_degree"
  let ?q = "if d - 1 = 0 then queue @ [nb] else queue"
  have keys: "\<forall>k. (map_of ?deg k = None) = (map_of in_degree k = None)"
    using d by (auto simp: update_conv')
  with Cons.prems have "\<forall>x\<in>set nbs. map_of ?deg x \<noteq> None" by simp
  from Cons.IH [OF this, of ?q] keys d show ?case by (auto split: if_splits)
qed

lemma kahn_total:
  assumes "graph_keys adj in_degree" and "\<forall>k\<in>set queue. map_of in_degree k \<noteq> None"
  shows "\<exists>res. kahn adj in_degree queue order = Inr res
           \<and> set res \<subseteq> set order \<union> {k. map_of in_degree k \<noteq> None}"
  using assms
proof (induction adj in_degree queue order rule: kahn.induct)
  case (1 adj in_degree order)
  then show ?case by simp
next
  case (2 adj in_degree nid queue order)
  from "2.prems" obtain nbs where nbs: "map_of adj nid = Some nbs"
    by (fastforce simp: graph_keys_def)
  with "2.prems"(1) have "\<forall>x\<in>set nbs. map_of in_degree x \<noteq> None"
    by (auto simp: graph_keys_def)
  from relax_total [OF this, of queue] obtain deg' q' where
    r: "relax in_degree queue nbs = Inr (deg', q')" and
    q: "set q' \<subseteq> set queue \<union> set nbs" and
    k: "\<forall>k. (map_of deg' k = None) = (map_of in_degree k = None)" by blast
  have g: "graph_keys adj deg'" by (rule graph_keys_cong [OF "2.prems"(1) k])
  have "\<forall>k\<in>set q'. map_of deg' k \<noteq> None"
    using q k "2.prems"(2) \<open>\<forall>x\<in>set nbs. map_of in_degree x \<noteq> None\<close> by auto
  from "2.IH" [OF nbs r refl g this] obtain res where
    res: "kahn adj deg' q' (order @ [nid]) = Inr res" and
    sub: "set res \<subseteq> set (order @ [nid]) \<union> {k. map_of deg' k \<noteq> None}" by blast
  from "2.prems"(2) have "map_of in_degree nid \<noteq> None" by simp
  with sub k have "set res \<subseteq> set order \<union> {k. map_of in_degree k \<noteq> None}" by auto
  with res nbs r show ?case by simp
qed

lemma kahn_distinct:
  assumes "graph_keys adj in_degree" and "kahn_inv in_degree (order @ queue)"
  shows "\<exists>res. kahn adj in_degree queue order = Inr res \<and> distinct res"
  using assms
proof (induction adj in_degree queue order rule: kahn.induct)
  case (1 adj in_degree order)
  then show ?case by (simp add: kahn_inv_def)
next
  case (2 adj in_degree nid queue order)
  from "2.prems" have "map_of in_degree nid \<noteq> None" by (fastforce simp: kahn_inv_def)
  with "2.prems"(1) obtain nbs where nbs: "map_of adj nid = Some nbs"
    by (fastforce simp: graph_keys_def)
  with "2.prems"(1) have inn: "\<forall>x\<in>set nbs. map_of in_degree x \<noteq> None"
    by (auto simp: graph_keys_def)
  from "2.prems"(2) have "kahn_inv in_degree ((order @ [nid]) @ queue)" by simp
  from relax_inv [OF this inn] obtain deg' q' where
    r: "relax in_degree queue nbs = Inr (deg', q')" and
    i: "kahn_inv deg' ((order @ [nid]) @ q')" and
    k: "\<forall>k. (map_of deg' k = None) = (map_of in_degree k = None)" by blast
  have g: "graph_keys adj deg'" by (rule graph_keys_cong [OF "2.prems"(1) k])
  from "2.IH" [OF nbs r refl g i] nbs r show ?case by auto
qed

lemma execution_order_total:
  "\<exists>order. execution_order doc = Inr order \<and> set order \<subseteq> node_id ` set (nodes doc)"
proof -
  obtain adj deg where g: "build_graph (nodes doc) (edges doc) = (adj, deg)" by force
  from build_graph_ok [of "nodes doc" "edges doc"] g have ok: "graph_ok adj deg" by simp
  from build_graph_dom [of "nodes doc" "edges doc"] g
  have dom: "\<And>k. (map_of deg k \<noteq> None) = (k \<in> node_id ` set (nodes doc))" by simp
  let ?q = "filter (\<lambda>i. map_of deg i = Some 0) (map node_id (nodes doc))"
  have "\<forall>k\<in>set ?q. map_of deg k \<noteq> None" by auto
  from kahn_total [OF graph_ok_keys [OF ok] this, of "[]"] dom g
  show ?thesis by (auto simp: execution_order_def)
qed

lemma execution_order_distinct:
  assumes "distinct (map node_id (nodes doc))"
  shows "\<exists>order. execution_order doc = Inr order \<and> distinct order"
proof -
  obtain adj deg where g: "build_graph (nodes doc) (edges doc) = (adj, deg)" by force
  from build_graph_ok [of "nodes doc" "edges doc"] g have ok: "graph_ok adj deg" by simp
  from build_graph_dom [of "nodes doc" "edges doc"] g
  have dom: "\<And>k. (map_of deg k \<noteq> None) = (k \<in> node_id ` set (nodes doc))" by simp
  let ?q = "filter (\<lambda>i. map_of deg i = Some 0) (map node_id (nodes doc))"
  have "kahn_inv deg ([] @ ?q)"
    unfolding kahn_inv_def
  proof (intro conjI allI impI ballI)
    show "distinct ([] @ ?q)" using assms by simp
  next
    fix k assume "k \<in> set ([] @ ?q)"
    then show "\<exists>d. map_of deg k = Some d \<and> d \<le> 0" by auto
  next
    fix k d assume d: "map_of deg k = Some d" and k: "k \<notin> set ([] @ ?q)"
    from d dom [of k] have "k \<in> node_id ` set (nodes doc)" by simp
    with k d have "d \<noteq> 0" by auto
    moreover from ok d have "0 \<le> d" by (auto simp: graph_ok_def)
    ultimately show "0 < d" by simp
  qed
  from kahn_distinct [OF graph_ok_keys [OF ok] this] g
  show ?thesis by (auto simp: execution_order_def)
qed

lemma fold_node_map:
  fixes ns :: "node list"
  shows "(fold (\<lambda>n m. m(node_id n \<mapsto> n)) ns m k \<noteq> None) = (k \<in> node_id ` set ns \<or> m k \<noteq> None)"
  by (induction ns arbitrary: m) auto

lemma node_map_of_dom: "(node_map_of ns k \<noteq> None) = (k \<in> node_id ` set ns)"
  using fold_node_map [of ns Map.empty k] by (simp add: node_map_of_def)

lemma fold_pending:
  fixes ns :: "node list"
  shows "fold (\<lambda>n s. s(node_id n \<mapsto> StatusPending)) ns s k
          = (if k \<in> node_id ` set ns then Some StatusPending else s k)"
  by (induction ns arbitrary: s) auto

lemma initial_status:
  "node_status (initial_state doc w) k
     = (if k \<in> node_id ` set (nodes doc) then Some StatusPending else None)"
  by (simp add: initial_state_def fold_pending)

section \<open>Fail-fast runs\<close>

text \<open>
  What the dispatcher returns for a node in a state of the run: the operator of the node's
  type on the node's config and on the stored frames of the sources of its inbound edges.
\<close>

definition node_outcome ::
  "'w env \<Rightarrow> edge list \<Rightarrow> (string \<rightharpoonup> string) \<Rightarrow> string \<Rightarrow> node \<Rightarrow> 'w run_state
   \<Rightarrow> (error + ref option) \<times> 'w machine" where
  "node_outcome env es fm nid nd st =
     execute_node_by_type env (nd_type (data_of nd))
       (case nd_config (data_of nd) of Some c \<Rightarrow> c | None \<Rightarrow> empty_config)
       (collect_inputs es nid (ctx_results st)) fm (machine st)"

lemma preview_of_explicit:
  "preview_of t = \<lparr>pv_columns = columns t,
                    pv_data = map (\<lambda>r. zip (columns t) (map (\<lambda>c. if c = Null then StrV [] else c) r))
                                (rows t),
                    pv_total_rows = length (rows t)\<rparr>"
proof -
  have "fillna_empty = (\<lambda>c. if c = Null then StrV [] else c)"
    by (rule ext) (simp add: fillna_empty_def)
  then show ?thesis by (simp add: preview_of_def to_records_def nrows_def)
qed

text \<open>What one iteration of the loop does to the status and the entry of every node.\<close>

lemma run_node_effect:
  assumes run: "run_node env es fm nid nd st = (x, st')"
  shows "(\<forall>k. k \<noteq> nid \<longrightarrow> node_status st' k = node_status st k
                         \<and> node_results st' k = node_results st k)
       \<and> (x = None \<longrightarrow> node_status st' nid = Some StatusSuccess
            \<and> (case node_outcome env es fm nid nd st of
                  (Inl e, m') \<Rightarrow> False
                | (Inr None, m') \<Rightarrow> node_results st' nid = node_results st nid
                | (Inr (Some a), m') \<Rightarrow>
                    node_results st' nid = Some (Result (preview_of (deref m' a)))))
       \<and> (\<forall>e. x = Some e \<longrightarrow> is_exception e \<longrightarrow>
             node_status st' nid = Some StatusError \<and> node_results st' nid = Some (Failure e))"
proof -
  define cfg where "cfg = (case nd_config (data_of nd) of Some c \<Rightarrow> c | None \<Rightarrow> empty_config)"
  define lbl where "lbl = (case nd_label (data_of nd) of Some l \<Rightarrow> Some l | None \<Rightarrow> nd_type (data_of nd))"
  obtain r m where o: "node_outcome env es fm nid nd st = (r, m)" by force
  then have d: "execute_node_by_type env (nd_type (data_of nd)) cfg
                  (collect_inputs es nid (ctx_results st)) fm (machine st) = (r, m)"
    by (simp add: node_outcome_def cfg_def)
  show ?thesis
  proof (cases r)
    case (Inl e)
    with run d show ?thesis
      by (cases "is_exception e")
         (auto simp: o run_node_def Let_def log_def fail_node_def cfg_def [symmetric]
            lbl_def [symmetric])
  next
    case (Inr res)
    show ?thesis
    proof (cases res)
      case None
      with run d Inr show ?thesis
        by (auto simp: o run_node_def Let_def log_def cfg_def [symmetric] lbl_def [symmetric])
    next
      case (Some a)
      show ?thesis
      proof (cases "nd_type (data_of nd) = Some ''output'' \<or> nd_type (data_of nd) = Some ''output_csv''")
        case False
        with run d Inr Some show ?thesis
          by (auto simp: o run_node_def Let_def log_def cfg_def [symmetric] lbl_def [symmetric])
      next
        case True
        obtain sr m2 where sv: "save_output env a cfg (nd_type (data_of nd)) (saves st) m = (sr, m2)"
          by force
        show ?thesis
        proof (cases sr)
          case (Inl e)
          with run d Inr Some True sv show ?thesis
            by (cases "is_exception e")
               (auto simp: o run_node_def Let_def log_def fail_node_def cfg_def [symmetric]
                  lbl_def [symmetric])
        next
          case (Inr filename)
          with run d \<open>r = Inr res\<close> Some True sv show ?thesis
            by (auto simp: o run_node_def Let_def log_def cfg_def [symmetric] lbl_def [symmetric])
        qed
      qed
    qed
  qed
qed

lemma run_node_other:
  assumes "k \<noteq> nid"
  shows "node_status (snd (run_node env es fm nid nd st)) k = node_status st k
       \<and> node_results (snd (run_node env es fm nid nd st)) k = node_results st k"
  using assms run_node_effect [of env es fm nid nd st "fst (run_node env es fm nid nd st)"
      "snd (run_node env es fm nid nd st)"]
  by simp

lemma run_node_ok:
  assumes "run_node env es fm nid nd st = (None, st')"
  shows "node_status st' nid = Some StatusSuccess"
  using run_node_effect [OF assms] by simp

lemma run_node_result:
  assumes "run_node env es fm nid nd st = (None, st')"
  shows "case node_outcome env es fm nid nd st of
           (Inl e, m') \<Rightarrow> False
         | (Inr None, m') \<Rightarrow> node_results st' nid = node_results st nid
         | (Inr (Some a), m') \<Rightarrow>
             node_results st' nid
               = Some (Result \<lparr>pv_columns = columns (deref m' a),
                                pv_data = map (\<lambda>r. zip (columns (deref m' a))
                                                      (map (\<lambda>c. if c = Null then StrV [] else c) r))
                                            (rows (deref m' a)),
                                pv_total_rows = length (rows (deref m' a))\<rparr>)"
  using run_node_effect [OF assms] unfolding preview_of_explicit by simp

lemma run_node_failed:
  assumes "run_node env es fm nid nd st = (Some e, st')" and "is_exception e"
  shows "node_status st' nid = Some StatusError \<and> node_results st' nid = Some (Failure e)"
  using run_node_effect [OF assms(1)] assms(2) by simp

lemma run_nodes_split:
  assumes "run_nodes env es node_map fm order st = (Some e, st')"
  shows "\<exists>ran nid rest st1 nd. order = ran @ nid # rest
           \<and> run_nodes env es node_map fm ran st = (None, st1)
           \<and> node_map nid = Some nd
           \<and> run_node env es fm nid nd st1 = (Some e, st')"
  using assms
proof (induction order arbitrary: st)
  case Nil
  then show ?case by simp
next
  case (Cons k order)
  show ?case
  proof (cases "node_map k")
    case None
    with Cons.prems have "run_nodes env es node_map fm order st = (Some e, st')" by simp
    from Cons.IH [OF this] obtain dn nid rest st1 nd where
      "order = dn @ nid # rest" "run_nodes env es node_map fm dn st = (None, st1)"
      "node_map nid = Some nd" "run_node env es fm nid nd st1 = (Some e, st')" by blast
    with None have "k # order = (k # dn) @ nid # rest
        \<and> run_nodes env es node_map fm (k # dn) st = (None, st1)
        \<and> node_map nid = Some nd \<and> run_node env es fm nid nd st1 = (Some e, st')" by simp
    then show ?thesis by blast
  next
    case (Some nd)
    obtain r st2 where step: "run_node env es fm k nd st = (r, st2)" by force
    show ?thesis
    proof (cases r)
      case None
      with Cons.prems Some step
      have "run_nodes env es node_map fm order st2 = (Some e, st')" by simp
      from Cons.IH [OF this] obtain dn nid rest st1 nd' where
        "order = dn @ nid # rest" "run_nodes env es node_map fm dn st2 = (None, st1)"
        "node_map nid = Some nd'" "run_node env es fm nid nd' st1 = (Some e, st')" by blast
      with None Some step have "k # order = (k # dn) @ nid # rest
          \<and> run_nodes env es node_map fm (k # dn) st = (None, st1)
          \<and> node_map nid = Some nd' \<and> run_node env es fm nid nd' st1 = (Some e, st')" by simp
      then show ?thesis by blast
    next
      case (Some e')
      with Cons.prems \<open>node_map k = Some nd\<close> step have "e' = e" "st2 = st'" by auto
      with Some \<open>node_map k = Some nd\<close> step
      have "k # order = [] @ k # order
          \<and> run_nodes env es node_map fm [] st = (None, st)
          \<and> node_map k = Some nd \<and> run_node env es fm k nd st = (Some e, st')" by simp
      then show ?thesis by blast
    qed
  qed
qed

lemma run_nodes_append:
  assumes "run_nodes env es node_map fm (xs @ ys) st = (None, st')"
  shows "\<exists>st1. run_nodes env es node_map fm xs st = (None, st1)
              \<and> run_nodes env es node_map fm ys st1 = (None, st')"
  using assms
proof (induction xs arbitrary: st)
  case Nil
  then show ?case by simp
next
  case (Cons k xs)
  show ?case
  proof (cases "node_map k")
    case None
    with Cons.prems Cons.IH [of st] show ?thesis by simp
  next
    case (Some nd)
    obtain r st2 where step: "run_node env es fm k nd st = (r, st2)" by force
    with Cons.prems Some have r: "r = None"
      and rest: "run_nodes env es node_map fm (xs @ ys) st2 = (None, st')"
      by (auto split: option.splits)
    from Cons.IH [OF rest] Some step r show ?thesis by simp
  qed
qed

lemma run_nodes_completed:
  assumes "run_nodes env es node_map fm order st = (None, st')"
  shows "(\<forall>k\<in>set order. node_map k \<noteq> None \<longrightarrow> node_status st' k = Some StatusSuccess)
       \<and> (\<forall>k. k \<notin> set order \<longrightarrow> node_status st' k = node_status st k
                                  \<and> node_results st' k = node_results st k)"
  using assms
proof (induction order arbitrary: st)
  case Nil
  then show ?case by simp
next
  case (Cons k order)
  show ?case
  proof (cases "node_map k")
    case None
    with Cons.prems have "run_nodes env es node_map fm order st = (None, st')" by simp
    from Cons.IH [OF this] None show ?thesis by auto
  next
    case (Some nd)
    obtain r st2 where step: "run_node env es fm k nd st = (r, st2)" by force
    with Cons.prems Some have r: "r = None"
      and rest: "run_nodes env es node_map fm order st2 = (None, st')"
      by (auto split: option.splits)
    note ih = Cons.IH [OF rest]
    from step r have ok: "node_status st2 k = Some StatusSuccess"
      using run_node_ok [of env es fm k nd st st2] by auto
    have other: "\<And>j. j \<noteq> k \<Longrightarrow> node_status st2 j = node_status st j
                              \<and> node_results st2 j = node_results st j"
      using run_node_other [of _ k env es fm nd st] step by simp
    have a: "\<forall>j\<in>set (k # order). node_map j \<noteq> None \<longrightarrow> node_status st' j = Some StatusSuccess"
    proof (intro ballI impI)
      fix j assume j: "j \<in> set (k # order)" and "node_map j \<noteq> None"
      show "node_status st' j = Some StatusSuccess"
      proof (cases "j \<in> set order")
        case True
        with ih \<open>node_map j \<noteq> None\<close> show ?thesis by blast
      next
        case False
        with j have "j = k" by simp
        with ih False ok show ?thesis by simp
      qed
    qed
    have b: "\<forall>j. j \<notin> set (k # order) \<longrightarrow> node_status st' j = node_status st j
                                  \<and> node_results st' j = node_results st j"
      using ih other by auto
    from a b show ?thesis by blast
  qed
qed

text \<open>
  A node that completed keeps, to the end of the prefix of the run that contains it, the
  entry that it got when it completed: the preview of the frame that its operator returned,
  or no entry when the operator returned none.
\<close>

lemma completed_entry:
  assumes run: "run_nodes env es node_map fm (pre @ k # post) st0 = (None, st1)"
    and dist: "distinct (pre @ k # post)"
    and nd: "node_map k = Some nd"
    and init: "node_results st0 k = None"
  shows "\<exists>st_k. run_nodes env es node_map fm pre st0 = (None, st_k)
         \<and> (case node_outcome env es fm k nd st_k of
               (Inl e, m') \<Rightarrow> False
             | (Inr None, m') \<Rightarrow> node_results st1 k = None
             | (Inr (Some a), m') \<Rightarrow>
                 node_results st1 k
                   = Some (Result \<lparr>pv_columns = columns (deref m' a),
                                    pv_data = map (\<lambda>r. zip (columns (deref m' a))
                                                          (map (\<lambda>c. if c = Null then StrV [] else c) r))
                                                (rows (deref m' a)),
                                    pv_total_rows = length (rows (deref m' a))\<rparr>))"
proof -
  from run_nodes_append [OF run] obtain st_k where
    pre: "run_nodes env es node_map fm pre st0 = (None, st_k)" and
    tail: "run_nodes env es node_map fm (k # post) st_k = (None, st1)" by blast
  obtain r st2 where step: "run_node env es fm k nd st_k = (r, st2)" by force
  with tail nd have r: "r = None" and post: "run_nodes env es node_map fm post st2 = (None, st1)"
    by (auto split: option.splits)
  from dist have k1: "k \<notin> set pre" and k2: "k \<notin> set post" by auto
  from run_nodes_completed [OF pre] k1 init have before: "node_results st_k k = None" by simp
  from run_nodes_completed [OF post] k2 have after: "node_results st1 k = node_results st2 k" by simp
  from run_node_result [OF step [unfolded r]] before after
  have "case node_outcome env es fm k nd st_k of
               (Inl e, m') \<Rightarrow> False
             | (Inr None, m') \<Rightarrow> node_results st1 k = None
             | (Inr (Some a), m') \<Rightarrow>
                 node_results st1 k
                   = Some (Result \<lparr>pv_columns = columns (deref m' a),
                                    pv_data = map (\<lambda>r. zip (columns (deref m' a))
                                                          (map (\<lambda>c. if c = Null then StrV [] else c) r))
                                                (rows (deref m' a)),
                                    pv_total_rows = length (rows (deref m' a))\<rparr>)"
    by (auto split: prod.splits sum.splits option.splits)
  then show ?thesis by (intro exI [of _ st_k] conjI pre)
qed

text \<open>
  Claim C1, as amended. For a document whose node ids are unique the scheduler cannot
  raise, and the loop ends either with every node run or at the first node whose step
  raises. In the second case the execution order splits into the nodes that ran before, the
  node that raised and the nodes that were not reached. When the error is an
  \<^verbatim>\<open>Exception\<close>, \<^verbatim>\<open>execute_workflow\<close> returns a report with \<open>success\<close> false that
  carries the error; the failing node has status \<^verbatim>\<open>error\<close> and its error in
  \<^verbatim>\<open>node_results\<close>; every node that ran before has status \<^verbatim>\<open>success\<close> and, in
  \<^verbatim>\<open>node_results\<close>, the columns, the records (nulls as empty strings) and the row count of
  the frame that its operator returned when it ran, or no entry when the operator returned
  no frame; and every other declared node is still \<^verbatim>\<open>pending\<close> with no entry. When the
  error is not an \<^verbatim>\<open>Exception\<close>, neither handler catches it and it leaves
  \<^verbatim>\<open>execute_workflow\<close>: no report is returned.
\<close>

theorem fail_fast_report:
  assumes ids: "distinct (map node_id (nodes doc))"
  shows "\<exists>failure st. run_workflow env doc fm w = Inr (failure, st)
       \<and> (failure = None \<longrightarrow> (\<exists>rep. execute_workflow env doc fm w = Inr rep \<and> success rep))
       \<and> (\<forall>e. failure = Some e \<longrightarrow>
            (\<exists>ran nid rest st1 nd.
               execution_order doc = Inr (ran @ nid # rest)
             \<and> run_nodes env (edges doc) (node_map_of (nodes doc)) fm ran (initial_state doc w) = (None, st1)
             \<and> node_map_of (nodes doc) nid = Some nd
             \<and> run_node env (edges doc) fm nid nd st1 = (Some e, st)
             \<and> (\<not> is_exception e \<longrightarrow> execute_workflow env doc fm w = Inl e)
             \<and> (is_exception e \<longrightarrow>
                  (\<exists>rep. execute_workflow env doc fm w = Inr rep
                     \<and> \<not> success rep \<and> rep_error rep = Some e
                     \<and> rep_node_status rep nid = Some StatusError
                     \<and> rep_node_results rep nid = Some (Failure e)
                     \<and> (\<forall>pre k post. ran = pre @ k # post \<longrightarrow>
                            rep_node_status rep k = Some StatusSuccess
                          \<and> (\<exists>st_k nd_k.
                                run_nodes env (edges doc) (node_map_of (nodes doc)) fm pre
                                  (initial_state doc w) = (None, st_k)
                              \<and> node_map_of (nodes doc) k = Some nd_k
                              \<and> (case node_outcome env (edges doc) fm k nd_k st_k of
                                    (Inl e', m') \<Rightarrow> False
                                  | (Inr None, m') \<Rightarrow> rep_node_results rep k = None
                                  | (Inr (Some a), m') \<Rightarrow>
                                      rep_node_results rep k
                                        = Some (Result
                                            \<lparr>pv_columns = columns (deref m' a),
                                             pv_data = map (\<lambda>r. zip (columns (deref m' a))
                                                          (map (\<lambda>c. if c = Null then StrV [] else c) r))
                                                         (rows (deref m' a)),
                                             pv_total_rows = length (rows (deref m' a))\<rparr>))))
                     \<and> (\<forall>k\<in>node_id ` set (nodes doc). k \<notin> set ran \<longrightarrow> k \<noteq> nid \<longrightarrow>
                            rep_node_status rep k = Some StatusPending
                          \<and> rep_node_results rep k = None)))))"
proof -
  let ?nm = "node_map_of (nodes doc)"
  let ?st0 = "initial_state doc w"
  from execution_order_total [of doc] execution_order_distinct [OF ids]
  obtain order where order: "execution_order doc = Inr order"
    and sub: "set order \<subseteq> node_id ` set (nodes doc)" and dist: "distinct order" by auto
  obtain failure st where run: "run_nodes env (edges doc) ?nm fm order ?st0 = (failure, st)"
    by force
  have rw: "run_workflow env doc fm w = Inr (failure, st)"
    by (simp add: run_workflow_def order run)
  have ok: "\<exists>rep. execute_workflow env doc fm w = Inr rep \<and> success rep" if "failure = None"
    using that rw by (simp add: execute_workflow_def report_of_def)
  have fl: "\<exists>ran nid rest st1 nd.
               execution_order doc = Inr (ran @ nid # rest)
             \<and> run_nodes env (edges doc) ?nm fm ran ?st0 = (None, st1)
             \<and> ?nm nid = Some nd
             \<and> run_node env (edges doc) fm nid nd st1 = (Some e, st)
             \<and> (\<not> is_exception e \<longrightarrow> execute_workflow env doc fm w = Inl e)
             \<and> (is_exception e \<longrightarrow>
                  (\<exists>rep. execute_workflow env doc fm w = Inr rep
                     \<and> \<not> success rep \<and> rep_error rep = Some e
                     \<and> rep_node_status rep nid = Some StatusError
                     \<and> rep_node_results rep nid = Some (Failure e)
                     \<and> (\<forall>pre k post. ran = pre @ k # post \<longrightarrow>
                            rep_node_status rep k = Some StatusSuccess
                          \<and> (\<exists>st_k nd_k.
                                run_nodes env (edges doc) ?nm fm pre ?st0 = (None, st_k)
                              \<and> ?nm k = Some nd_k
                              \<and> (case node_outcome env (edges doc) fm k nd_k st_k of
                                    (Inl e', m') \<Rightarrow> False
                                  | (Inr None, m') \<Rightarrow> rep_node_results rep k = None
                                  | (Inr (Some a), m') \<Rightarrow>
                                      rep_node_results rep k
                                        = Some (Result
                                            \<lparr>pv_columns = columns (deref m' a),
                                             pv_data = map (\<lambda>r. zip (columns (deref m' a))
                                                          (map (\<lambda>c. if c = Null then StrV [] else c) r))
                                                         (rows (deref m' a)),
                                             pv_total_rows = length (rows (deref m' a))\<rparr>))))
                     \<and> (\<forall>k\<in>node_id ` set (nodes doc). k \<notin> set ran \<longrightarrow> k \<noteq> nid \<longrightarrow>
                            rep_node_status rep k = Some StatusPending
                          \<and> rep_node_results rep k = None)))"
    if f: "failure = Some e" for e
  proof -
    from run f have "run_nodes env (edges doc) ?nm fm order ?st0 = (Some e, st)" by simp
    from run_nodes_split [OF this] obtain ran nid rest st1 nd where
      split: "order = ran @ nid # rest" and
      pre: "run_nodes env (edges doc) ?nm fm ran ?st0 = (None, st1)" and
      nd: "?nm nid = Some nd" and
      step: "run_node env (edges doc) fm nid nd st1 = (Some e, st)" by blast
    from dist split have notin: "nid \<notin> set ran" and dran: "distinct ran" by auto
    note compl = run_nodes_completed [OF pre]
    have other: "\<And>k. k \<noteq> nid \<Longrightarrow> node_status st k = node_status st1 k
                              \<and> node_results st k = node_results st1 k"
      using run_node_other [of _ nid env "edges doc" fm nd st1] step by simp
    have init_res: "\<And>k. node_results ?st0 k = None" by (simp add: initial_state_def)
    have esc: "execute_workflow env doc fm w = Inl e" if "\<not> is_exception e"
      using that rw f by (simp add: execute_workflow_def)
    have rep: "\<exists>rep. execute_workflow env doc fm w = Inr rep
                     \<and> \<not> success rep \<and> rep_error rep = Some e
                     \<and> rep_node_status rep nid = Some StatusError
                     \<and> rep_node_results rep nid = Some (Failure e)
                     \<and> (\<forall>pre k post. ran = pre @ k # post \<longrightarrow>
                            rep_node_status rep k = Some StatusSuccess
                          \<and> (\<exists>st_k nd_k.
                                run_nodes env (edges doc) ?nm fm pre ?st0 = (None, st_k)
                              \<and> ?nm k = Some nd_k
                              \<and> (case node_outcome env (edges doc) fm k nd_k st_k of
                                    (Inl e', m') \<Rightarrow> False
                                  | (Inr None, m') \<Rightarrow> rep_node_results rep k = None
                                  | (Inr (Some a), m') \<Rightarrow>
                                      rep_node_results rep k
                                        = Some (Result
                                            \<lparr>pv_columns = columns (deref m' a),
                                             pv_data = map (\<lambda>r. zip (columns (deref m' a))
                                                          (map (\<lambda>c. if c = Null then StrV [] else c) r))
                                                         (rows (deref m' a)),
                                             pv_total_rows = length (rows (deref m' a))\<rparr>))))
                     \<and> (\<forall>k\<in>node_id ` set (nodes doc). k \<notin> set ran \<longrightarrow> k \<noteq> nid \<longrightarrow>
                            rep_node_status rep k = Some StatusPending
                          \<and> rep_node_results rep k = None)"
      if ex: "is_exception e"
    proof -
      let ?rep = "report_of (Some e) st"
      have ew: "execute_workflow env doc fm w = Inr ?rep"
        using rw f ex by (simp add: execute_workflow_def)
      note failed = run_node_failed [OF step ex]
      have r1: "\<not> success ?rep" "rep_error ?rep = Some e"
        "rep_node_status ?rep = node_status st" "rep_node_results ?rep = node_results st"
        by (simp_all add: report_of_def)
      have a: "rep_node_status ?rep k = Some StatusSuccess
             \<and> (\<exists>st_k nd_k.
                   run_nodes env (edges doc) ?nm fm pre' ?st0 = (None, st_k)
                 \<and> ?nm k = Some nd_k
                 \<and> (case node_outcome env (edges doc) fm k nd_k st_k of
                       (Inl e', m') \<Rightarrow> False
                     | (Inr None, m') \<Rightarrow> rep_node_results ?rep k = None
                     | (Inr (Some a), m') \<Rightarrow>
                         rep_node_results ?rep k
                           = Some (Result
                               \<lparr>pv_columns = columns (deref m' a),
                                pv_data = map (\<lambda>r. zip (columns (deref m' a))
                                             (map (\<lambda>c. if c = Null then StrV [] else c) r))
                                            (rows (deref m' a)),
                                pv_total_rows = length (rows (deref m' a))\<rparr>)))"
        if sp: "ran = pre' @ k # post" for pre' k post
      proof -
        from sp have k: "k \<in> set ran" by simp
        with notin have ne: "k \<noteq> nid" by auto
        from k split sub have "k \<in> node_id ` set (nodes doc)" by auto
        then obtain nd_k where ndk: "?nm k = Some nd_k"
          using node_map_of_dom [of "nodes doc" k] by blast
        with compl k have s: "node_status st1 k = Some StatusSuccess" by auto
        from completed_entry [OF pre [unfolded sp] dran [unfolded sp] ndk init_res]
        obtain st_k where both:
          "run_nodes env (edges doc) ?nm fm pre' ?st0 = (None, st_k)
           \<and> (case node_outcome env (edges doc) fm k nd_k st_k of
                 (Inl e', m') \<Rightarrow> False
               | (Inr None, m') \<Rightarrow> node_results st1 k = None
               | (Inr (Some a), m') \<Rightarrow>
                   node_results st1 k
                     = Some (Result
                         \<lparr>pv_columns = columns (deref m' a),
                          pv_data = map (\<lambda>r. zip (columns (deref m' a))
                                       (map (\<lambda>c. if c = Null then StrV [] else c) r))
                                      (rows (deref m' a)),
                          pv_total_rows = length (rows (deref m' a))\<rparr>))" by (rule exE)
        note pk = both [THEN conjunct1] and en = both [THEN conjunct2]
        from s other [OF ne] have rs: "rep_node_status ?rep k = Some StatusSuccess" by (simp add: r1)
        from other [OF ne] have rn: "node_results st1 k = rep_node_results ?rep k"
          by (simp add: r1)
        show ?thesis
          by (intro conjI rs exI [of _ st_k] exI [of _ nd_k] pk ndk en [unfolded rn])
      qed
      have b: "\<forall>k\<in>node_id ` set (nodes doc). k \<notin> set ran \<longrightarrow> k \<noteq> nid \<longrightarrow>
                    rep_node_status ?rep k = Some StatusPending
                    \<and> rep_node_results ?rep k = None"
      proof (intro ballI impI)
        fix k assume k: "k \<in> node_id ` set (nodes doc)" and nr: "k \<notin> set ran" and ne: "k \<noteq> nid"
        from compl nr have "node_status st1 k = node_status ?st0 k"
          and "node_results st1 k = node_results ?st0 k" by auto
        with k init_res [of k] other [OF ne]
        show "rep_node_status ?rep k = Some StatusPending \<and> rep_node_results ?rep k = None"
          by (simp add: r1 initial_status)
      qed
      from ew r1(1,2) failed a b show ?thesis by (simp add: r1(3,4)) blast
    qed
    from order split pre nd step esc rep show ?thesis by blast
  qed
  from rw ok fl show ?thesis by blast
qed

text \<open>
  A document of three nodes: a source, a join that has only this one input, and an output
  behind the join.
\<close>

definition failing_doc :: workflow where
  "failing_doc =
     \<lparr>nodes = [plain_node ''s'' ''source'' (empty_config\<lparr>cfg_file_id := Some ''f1''\<rparr>),
               plain_node ''j'' ''join'' empty_config,
               plain_node ''o'' ''output'' empty_config],
      edges = [\<lparr>source = ''s'', target = ''j''\<rparr>, \<lparr>source = ''j'', target = ''o''\<rparr>]\<rparr>"

lemma failing_order: "execution_order failing_doc = Inr [''s'', ''j'', ''o'']"
  by (simp add: execution_order_def failing_doc_def build_graph_def add_edge_def plain_node_def)

lemma failing_run:
  "\<exists>rep. execute_workflow sample_env failing_doc Map.empty [''f1.xlsx''] = Inr rep
     \<and> \<not> success rep \<and> rep_error rep = Some JoinArity
     \<and> rep_node_status rep ''s'' = Some StatusSuccess
     \<and> rep_node_results rep ''s''
         = Some (Result \<lparr>pv_columns = [''city'', ''amt''],
                          pv_data = [[(''city'', StrV ''A''), (''amt'', IntV 10)],
                                     [(''city'', StrV ''A''), (''amt'', IntV 20)],
                                     [(''city'', StrV ''B''), (''amt'', IntV 5)]],
                          pv_total_rows = 3\<rparr>)
     \<and> rep_node_status rep ''j'' = Some StatusError
     \<and> rep_node_results rep ''j'' = Some (Failure JoinArity)
     \<and> rep_node_status rep ''o'' = Some StatusPending
     \<and> rep_node_results rep ''o'' = None"
  by (simp add: execute_workflow_def run_workflow_def failing_order)
     (simp add: failing_doc_def node_map_of_def initial_state_def run_node_def
        execute_node_by_type_def execute_source_def resolve_file_def alloc_result_def alloc_def
        sample_env_def plain_node_def data_of_def log_def fail_node_def collect_inputs_def
        binary_def unary_def some_result_def report_of_def startswith_def deref_def
        is_exception_def preview_of_def to_records_def fillna_empty_def nrows_def sample_frame_def
        List.map_filter_def Let_def)

theorem fail_fast_report_witness:
  "distinct (map node_id (nodes failing_doc))
   \<and> (\<exists>failure st rep.
         run_workflow sample_env failing_doc Map.empty [''f1.xlsx''] = Inr (failure, st)
       \<and> failure = Some JoinArity \<and> is_exception JoinArity
       \<and> execute_workflow sample_env failing_doc Map.empty [''f1.xlsx''] = Inr rep
       \<and> \<not> success rep \<and> rep_error rep = Some JoinArity
       \<and> rep_node_status rep ''s'' = Some StatusSuccess
       \<and> rep_node_results rep ''s''
           = Some (Result \<lparr>pv_columns = [''city'', ''amt''],
                            pv_data = [[(''city'', StrV ''A''), (''amt'', IntV 10)],
                                       [(''city'', StrV ''A''), (''amt'', IntV 20)],
                                       [(''city'', StrV ''B''), (''amt'', IntV 5)]],
                            pv_total_rows = 3\<rparr>)
       \<and> rep_node_status rep ''j'' = Some StatusError
       \<and> rep_node_results rep ''j'' = Some (Failure JoinArity)
       \<and> rep_node_status rep ''o'' = Some StatusPending
       \<and> rep_node_results rep ''o'' = None)"
proof -
  have h: "distinct (map node_id (nodes failing_doc))"
    by (simp add: failing_doc_def plain_node_def)
  from fail_fast_report [OF h, of sample_env Map.empty "[''f1.xlsx'']"]
  obtain failure st where
    a: "run_workflow sample_env failing_doc Map.empty [''f1.xlsx''] = Inr (failure, st)" by blast
  from failing_run obtain rep where
    b: "execute_workflow sample_env failing_doc Map.empty [''f1.xlsx''] = Inr rep" and
    c: "\<not> success rep" "rep_error rep = Some JoinArity"
       "rep_node_status rep ''s'' = Some StatusSuccess"
       "rep_node_results rep ''s''
           = Some (Result \<lparr>pv_columns = [''city'', ''amt''],
                            pv_data = [[(''city'', StrV ''A''), (''amt'', IntV 10)],
                                       [(''city'', StrV ''A''), (''amt'', IntV 20)],
                                       [(''city'', StrV ''B''), (''amt'', IntV 5)]],
                            pv_total_rows = 3\<rparr>)"
       "rep_node_status rep ''j'' = Some StatusError"
       "rep_node_results rep ''j'' = Some (Failure JoinArity)"
       "rep_node_status rep ''o'' = Some StatusPending"
       "rep_node_results rep ''o'' = None" by blast
  have f: "failure = Some JoinArity"
    using a b c(1,2) by (auto simp: execute_workflow_def report_of_def split: option.splits if_splits)
  have i: "is_exception JoinArity" by (simp add: is_exception_def)
  from h a f i b c show ?thesis by blast
qed

text \<open>
  The claim as stated fails on a source followed by a script node whose script exits the
  interpreter: \<^verbatim>\<open>SystemExit\<close> is not an \<^verbatim>\<open>Exception\<close>, neither handler catches it, and
  \<^verbatim>\<open>execute_workflow\<close> raises instead of returning a report.
\<close>

definition exiting_doc :: workflow where
  "exiting_doc =
     \<lparr>nodes = [plain_node ''s'' ''source'' (empty_config\<lparr>cfg_file_id := Some ''f1''\<rparr>),
               plain_node ''c'' ''code'' (empty_config\<lparr>cfg_python_code := Some ''raise SystemExit(1)''\<rparr>)],
      edges = [\<lparr>source = ''s'', target = ''c''\<rparr>]\<rparr>"

lemma exiting_order: "execution_order exiting_doc = Inr [''s'', ''c'']"
  by (simp add: execution_order_def exiting_doc_def build_graph_def add_edge_def plain_node_def)

theorem fail_fast_counterexample:
  "execute_workflow sample_env exiting_doc Map.empty [''f1.xlsx''] = Inl (BaseRaised ''1'')"
  by (simp add: execute_workflow_def run_workflow_def exiting_order)
     (simp add: exiting_doc_def node_map_of_def initial_state_def run_node_def
        execute_node_by_type_def execute_source_def resolve_file_def alloc_result_def alloc_def
        execute_code_def sample_exec_def
        sample_env_def plain_node_def data_of_def log_def fail_node_def collect_inputs_def
        some_result_def startswith_def deref_def is_exception_def
        List.map_filter_def Let_def)

section \<open>The transform operator\<close>

text \<open>
  The six sub-steps of the transform as functions on frames, written out cell by cell.

  One calculation \<open>target := formula\<close>: when the formula evaluates to one value per row,
  the values stand under the target column, which replaces the column of that name or comes
  last when the name is new; the other cells stay. When the target or the formula is empty
  or the formula does not evaluate, the frame is left as it is.
\<close>

definition calc_value :: "'w env \<Rightarrow> string option \<times> string option \<Rightarrow> table \<Rightarrow> table" where
  "calc_value env calc t =
     (case calc of
        (Some tgt, Some formula) \<Rightarrow>
          if tgt \<noteq> [] \<and> formula \<noteq> []
          then (case env_eval env formula t of
                  Inr vals \<Rightarrow>
                    if length vals = length (rows t)
                    then (if tgt \<in> set (columns t)
                          then t\<lparr>rows := map (\<lambda>(r, v). map (\<lambda>(c, x). if c = tgt then v else x)
                                                          (zip (columns t) r))
                                            (zip (rows t) vals)\<rparr>
                          else \<lparr>columns = columns t @ [tgt],
                                rows = map (\<lambda>(r, v). r @ [v]) (zip (rows t) vals)\<rparr>)
                    else t
                | Inl e \<Rightarrow> t)
          else t
      | _ \<Rightarrow> t)"

lemma apply_calculation_value:
  "apply_calculation env df calc m = assign df (calc_value env calc (deref m df)) m"
  unfolding apply_calculation_def calc_value_def update_column_def store_column_def assign_def deref_def
    set_column_def nrows_def
  by (auto split: option.splits sum.splits prod.splits)

lemma fold_calculations_value:
  "df < length (store m) \<Longrightarrow>
   fold (apply_calculation env df) calcs m = assign df (fold (calc_value env) calcs (deref m df)) m"
proof (induction calcs arbitrary: m)
  case Nil
  then show ?case by (simp add: assign_def deref_def)
next
  case (Cons c calcs)
  have "df < length (store (assign df (calc_value env c (deref m df)) m))"
    using Cons.prems by (simp add: assign_def)
  from Cons.IH [OF this] Cons.prems show ?case
    by (simp add: apply_calculation_value assign_def deref_def)
qed

text \<open>
  Filter: the rows that the predicate keeps, when a predicate is given. Drop: the columns
  whose name is not among the names to drop, each row without the cells of the dropped
  columns. Calculate: the calculations one after the other. Rename: every column name that
  the map knows is replaced. Sort: by the column \<^verbatim>\<open>sort_by\<close> when the frame has it.
\<close>

definition spec_filter :: "'w env \<Rightarrow> config \<Rightarrow> table \<Rightarrow> error + table" where
  "spec_filter env cfg t =
     (if truthy (cfg_filter_code cfg) then env_query env (str_value (cfg_filter_code cfg)) t
      else Inr t)"

definition spec_drop :: "config \<Rightarrow> table \<Rightarrow> table" where
  "spec_drop cfg t =
     (if cfg_drop_columns cfg = [] then t
      else \<lparr>columns = filter (\<lambda>c. c \<notin> set (cfg_drop_columns cfg)) (columns t),
            rows = map (\<lambda>r. map snd (filter (\<lambda>p. fst p \<notin> set (cfg_drop_columns cfg))
                                         (zip (columns t) r))) (rows t)\<rparr>)"

definition spec_calculate :: "'w env \<Rightarrow> config \<Rightarrow> table \<Rightarrow> table" where
  "spec_calculate env cfg t = fold (calc_value env) (cfg_calculations cfg) t"

definition spec_rename :: "config \<Rightarrow> table \<Rightarrow> table" where
  "spec_rename cfg t =
     t\<lparr>columns := map (\<lambda>c. case map_of (cfg_rename_map cfg) c of None \<Rightarrow> c | Some c' \<Rightarrow> c')
                      (columns t)\<rparr>"

text \<open>
  Step 5 as the specification words it, \<^emph>\<open>keep only the selected columns (preserves order;
  missing names silently dropped)\<close>: for every selected name in the order of the config, the
  columns of that name with their cells; a name that the frame does not have contributes
  nothing.
\<close>

definition keep_only :: "string list \<Rightarrow> table \<Rightarrow> table" where
  "keep_only names t =
     \<lparr>columns = concat (map (\<lambda>n. filter (\<lambda>c. c = n) (columns t)) names),
      rows = map (\<lambda>r. concat (map (\<lambda>n. map snd (filter (\<lambda>p. fst p = n) (zip (columns t) r)))
                               names)) (rows t)\<rparr>"

text \<open>
  Step 5 as the code performs it: the guard \<^verbatim>\<open>if cols_to_keep:\<close> leaves the frame whole
  when none of the selected names exists.
\<close>

definition spec_select :: "config \<Rightarrow> table \<Rightarrow> table" where
  "spec_select cfg t =
     (if filter (\<lambda>c. c \<in> set (columns t)) (cfg_selected_columns cfg) = [] then t
      else keep_only (cfg_selected_columns cfg) t)"

definition spec_sort :: "'w env \<Rightarrow> config \<Rightarrow> table \<Rightarrow> error + table" where
  "spec_sort env cfg t =
     (if truthy (cfg_sort_by cfg) \<and> str_value (cfg_sort_by cfg) \<in> set (columns t)
      then env_sort_values env (str_value (cfg_sort_by cfg))
             (cfg_sort_order cfg = None \<or> cfg_sort_order cfg = Some ''asc'') t
      else Inr t)"

definition transform_spec :: "'w env \<Rightarrow> config \<Rightarrow> table \<Rightarrow> error + table" where
  "transform_spec env cfg t =
     (case spec_filter env cfg t of
        Inl e \<Rightarrow> Inl e
      | Inr t1 \<Rightarrow>
          spec_sort env cfg (spec_select cfg (spec_rename cfg (spec_calculate env cfg (spec_drop cfg t1)))))"

text \<open>The frame behind the result of an operator, or its error.\<close>

definition outcome :: "(error + ref) \<times> 'w machine \<Rightarrow> error + table" where
  "outcome r = (case fst r of Inl e \<Rightarrow> Inl e | Inr a \<Rightarrow> Inr (deref (snd r) a))"

lemma pd_drop_present:
  "pd_drop (filter (\<lambda>c. c \<in> set (columns t)) names) t = pd_drop names t"
proof -
  define present where "present = filter (\<lambda>c. c \<in> set (columns t)) names"
  have a: "\<And>r. filter (\<lambda>p. fst p \<notin> set present) (zip (columns t) r)
            = filter (\<lambda>p. fst p \<notin> set names) (zip (columns t) r)"
    by (rule filter_cong) (auto simp: present_def dest: set_zip_leftD)
  have b: "filter (\<lambda>c. c \<notin> set present) (columns t) = filter (\<lambda>c. c \<notin> set names) (columns t)"
    by (rule filter_cong) (auto simp: present_def)
  have "pd_drop present t = pd_drop names t" by (simp add: pd_drop_def a b)
  then show ?thesis by (simp add: present_def)
qed

lemma keep_only_present:
  "keep_only (filter (\<lambda>c. c \<in> set (columns t)) names) t = keep_only names t"
proof -
  have a: "concat (map (\<lambda>n. filter (\<lambda>c. c = n) (columns t)) (filter (\<lambda>c. c \<in> set (columns t)) names))
             = concat (map (\<lambda>n. filter (\<lambda>c. c = n) (columns t)) names)"
    by (induction names) (auto simp: filter_empty_conv)
  have b: "\<And>r. concat (map (\<lambda>n. map snd (filter (\<lambda>p. fst p = n) (zip (columns t) r)))
                        (filter (\<lambda>c. c \<in> set (columns t)) names))
             = concat (map (\<lambda>n. map snd (filter (\<lambda>p. fst p = n) (zip (columns t) r))) names)"
    by (induction names) (auto simp: filter_empty_conv dest: set_zip_leftD)
  show ?thesis by (simp add: keep_only_def a b)
qed

lemma pd_select_keep_only: "pd_select names t = keep_only names t"
  by (simp add: pd_select_def keep_only_def cells_of_def)

lemma filter_step:
  assumes "df < length (store m)"
  shows "outcome (transform_filter env cfg df m) = spec_filter env cfg (deref m df)
       \<and> (\<forall>a. fst (transform_filter env cfg df m) = Inr a
              \<longrightarrow> a < length (store (snd (transform_filter env cfg df m))))"
  using assms
  unfolding outcome_def transform_filter_def spec_filter_def alloc_result_def alloc_def deref_def
            truthy_def str_value_def
  by (auto split: option.splits sum.splits)

lemma drop_step:
  assumes "df < length (store m)"
  shows "deref (snd (transform_drop cfg df m)) (fst (transform_drop cfg df m)) = spec_drop cfg (deref m df)
       \<and> fst (transform_drop cfg df m) < length (store (snd (transform_drop cfg df m)))"
  using assms
  unfolding transform_drop_def spec_drop_def alloc_def deref_def
  by (simp add: Let_def pd_drop_present) (simp add: pd_drop_def)

lemma calculations_step:
  assumes "df < length (store m)"
  shows "deref (transform_calculations env cfg df m) df = spec_calculate env cfg (deref m df)
       \<and> df < length (store (transform_calculations env cfg df m))"
  using assms
  by (simp add: transform_calculations_def spec_calculate_def fold_calculations_value assign_def deref_def)

lemma rename_step:
  assumes "df < length (store m)"
  shows "deref (snd (transform_rename cfg df m)) (fst (transform_rename cfg df m)) = spec_rename cfg (deref m df)
       \<and> fst (transform_rename cfg df m) < length (store (snd (transform_rename cfg df m)))"
  using assms
  unfolding transform_rename_def spec_rename_def alloc_def deref_def
  by (simp add: pd_rename_def)

lemma select_step:
  assumes "df < length (store m)"
  shows "deref (snd (transform_select cfg df m)) (fst (transform_select cfg df m)) = spec_select cfg (deref m df)
       \<and> fst (transform_select cfg df m) < length (store (snd (transform_select cfg df m)))"
  using assms
  unfolding transform_select_def spec_select_def alloc_def deref_def
  by (simp add: Let_def pd_select_keep_only keep_only_present)

lemma sort_step:
  assumes "df < length (store m)"
  shows "outcome (transform_sort env cfg df m) = spec_sort env cfg (deref m df)"
  using assms
  unfolding outcome_def transform_sort_def spec_sort_def alloc_result_def alloc_def deref_def
            truthy_def str_value_def
  by (auto simp: Let_def split: option.splits sum.splits)

lemma transform_refines_spec:
  "outcome (execute_transform env df0 cfg m0) = transform_spec env cfg (deref m0 df0)"
proof -
  obtain df1 m1 where c: "alloc (deref m0 df0) m0 = (df1, m1)" by force
  then have v1: "df1 < length (store m1)" and d1: "deref m1 df1 = deref m0 df0"
    by (auto simp: alloc_def deref_def)
  obtain r2 m2 where f: "transform_filter env cfg df1 m1 = (r2, m2)" by force
  note fs = filter_step [OF v1, of env cfg, unfolded f d1]
  show ?thesis
  proof (cases r2)
    case (Inl e)
    with fs have "spec_filter env cfg (deref m0 df0) = Inl e" by (simp add: outcome_def)
    with Inl c f show ?thesis
      by (simp add: execute_transform_def transform_spec_def outcome_def)
  next
    case (Inr df2)
    with fs have v2: "df2 < length (store m2)"
      and t2: "spec_filter env cfg (deref m0 df0) = Inr (deref m2 df2)"
      by (simp_all add: outcome_def)
    obtain df3 m3 where dr: "transform_drop cfg df2 m2 = (df3, m3)" by force
    from drop_step [OF v2, of cfg] dr
    have v3: "df3 < length (store m3)" and t3: "deref m3 df3 = spec_drop cfg (deref m2 df2)" by simp_all
    let ?m4 = "transform_calculations env cfg df3 m3"
    from calculations_step [OF v3, of env cfg]
    have v4: "df3 < length (store ?m4)" and t4: "deref ?m4 df3 = spec_calculate env cfg (deref m3 df3)"
      by simp_all
    obtain df5 m5 where rn: "transform_rename cfg df3 ?m4 = (df5, m5)" by force
    from rename_step [OF v4, of cfg] rn
    have v5: "df5 < length (store m5)" and t5: "deref m5 df5 = spec_rename cfg (deref ?m4 df3)" by simp_all
    obtain df6 m6 where sl: "transform_select cfg df5 m5 = (df6, m6)" by force
    from select_step [OF v5, of cfg] sl
    have v6: "df6 < length (store m6)" and t6: "deref m6 df6 = spec_select cfg (deref m5 df5)" by simp_all
    have "execute_transform env df0 cfg m0 = transform_sort env cfg df6 m6"
      by (simp add: execute_transform_def c f Inr dr rn sl)
    with sort_step [OF v6, of env cfg] t2 t3 t4 t5 t6 show ?thesis
      by (simp add: transform_spec_def)
  qed
qed

lemma empty_config_simps [simp]:
  "cfg_file_id empty_config = None"
  "cfg_sheet_name empty_config = None"
  "cfg_header_row empty_config = None"
  "cfg_skip_rows empty_config = None"
  "cfg_delimiter empty_config = None"
  "cfg_encoding empty_config = None"
  "cfg_filter_code empty_config = None"
  "cfg_drop_columns empty_config = []"
  "cfg_calculations empty_config = []"
  "cfg_rename_map empty_config = []"
  "cfg_selected_columns empty_config = []"
  "cfg_sort_by empty_config = None"
  "cfg_sort_order empty_config = None"
  "cfg_conversions empty_config = []"
  "cfg_strategy empty_config = None"
  "cfg_columns empty_config = None"
  "cfg_fill_value empty_config = None"
  "cfg_subset empty_config = []"
  "cfg_keep empty_config = None"
  "cfg_column empty_config = None"
  "cfg_operation empty_config = None"
  "cfg_pattern empty_config = None"
  "cfg_replacement empty_config = None"
  "cfg_extract empty_config = []"
  "cfg_offset empty_config = None"
  "cfg_group_by empty_config = []"
  "cfg_aggregations empty_config = []"
  "cfg_index empty_config = []"
  "cfg_values empty_config = None"
  "cfg_aggfunc empty_config = None"
  "cfg_id_vars empty_config = []"
  "cfg_value_vars empty_config = []"
  "cfg_var_name empty_config = None"
  "cfg_value_name empty_config = None"
  "cfg_how empty_config = None"
  "cfg_left_on empty_config = None"
  "cfg_right_on empty_config = None"
  "cfg_on empty_config = None"
  "cfg_join empty_config = None"
  "cfg_ignore_index empty_config = None"
  "cfg_left_key empty_config = None"
  "cfg_lookup_key empty_config = None"
  "cfg_right_key empty_config = None"
  "cfg_columns_to_get empty_config = []"
  "cfg_return_columns empty_config = []"
  "cfg_compare_columns empty_config = []"
  "cfg_join_keys empty_config = None"
  "cfg_detail_key empty_config = None"
  "cfg_left_column empty_config = None"
  "cfg_detail_amount empty_config = None"
  "cfg_right_column empty_config = None"
  "cfg_summary_amount empty_config = None"
  "cfg_output_mode empty_config = None"
  "cfg_tolerance empty_config = None"
  "cfg_python_code empty_config = None"
  "cfg_prompt empty_config = None"
  "cfg_target_column empty_config = None"
  "cfg_row_limit empty_config = None"
  "cfg_filename empty_config = None"
  by (simp_all add: empty_config_def)


lemma filter_eq_distinct:
  "distinct xs \<Longrightarrow> filter (\<lambda>c. c = n) xs = (if n \<in> set xs then [n] else [])"
  by (induction xs) (auto simp: filter_empty_conv)

lemma concat_select_names:
  "distinct xs \<Longrightarrow> concat (map (\<lambda>n. filter (\<lambda>c. c = n) xs) names) = filter (\<lambda>n. n \<in> set xs) names"
  by (induction names) (simp_all add: filter_eq_distinct)

lemma drop_columns:
  "columns (spec_drop cfg t) = filter (\<lambda>c. c \<notin> set (cfg_drop_columns cfg)) (columns t)"
  by (simp add: spec_drop_def)

lemma calc_skipped:
  "env_eval env formula t = Inl e \<Longrightarrow> calc_value env (Some tgt, Some formula) t = t"
  by (simp add: calc_value_def)

lemma select_present:
  "spec_select cfg t
     = (if filter (\<lambda>c. c \<in> set (columns t)) (cfg_selected_columns cfg) = [] then t
        else keep_only (filter (\<lambda>c. c \<in> set (columns t)) (cfg_selected_columns cfg)) t)"
  by (simp add: spec_select_def keep_only_present)

text \<open>
  Claim C5, as amended. The frame that \<^verbatim>\<open>_execute_transform\<close> returns, or its error, is
  the composition of the six sub-steps in the order filter, drop, calculate, rename, select,
  sort, applied to the input frame. The drop step leaves exactly the columns that are not
  named (a name that does not exist changes nothing and raises nothing); a calculation
  whose formula does not evaluate leaves the frame as it is; the select step keeps, in the
  order of the config, the columns of the selected names that exist, as if the missing names
  had not been given. But when none of the selected names exists, the select step is
  skipped and every column stays.
\<close>

theorem transform_steps_in_fixed_order:
  "outcome (execute_transform env df0 cfg m0)
     = (case spec_filter env cfg (deref m0 df0) of
          Inl e \<Rightarrow> Inl e
        | Inr t1 \<Rightarrow>
            spec_sort env cfg (spec_select cfg (spec_rename cfg
              (spec_calculate env cfg (spec_drop cfg t1)))))
   \<and> columns (spec_drop cfg t) = filter (\<lambda>c. c \<notin> set (cfg_drop_columns cfg)) (columns t)
   \<and> (\<forall>tgt formula e. env_eval env formula t = Inl e
          \<longrightarrow> calc_value env (Some tgt, Some formula) t = t)
   \<and> spec_select cfg t
       = (if filter (\<lambda>c. c \<in> set (columns t)) (cfg_selected_columns cfg) = [] then t
          else keep_only (filter (\<lambda>c. c \<in> set (columns t)) (cfg_selected_columns cfg)) t)"
  using transform_refines_spec [of env df0 cfg m0] drop_columns [of cfg t]
    select_present [of cfg t] calc_skipped [of env _ t]
  unfolding transform_spec_def by blast

text \<open>
  A config that uses every sub-step, with a column to drop, a formula and a selected name
  that do not exist, on the sample frame.
\<close>

definition cleaning_config :: config where
  "cleaning_config =
     empty_config\<lparr>cfg_filter_code := Some ''amt > 5'',
                  cfg_drop_columns := [''ghost''],
                  cfg_calculations := [(Some ''double'', Some ''amt * 2''),
                                       (Some ''bad'', Some ''nope * 2'')],
                  cfg_rename_map := [(''city'', ''town'')],
                  cfg_selected_columns := [''double'', ''nowhere'', ''town''],
                  cfg_sort_by := Some ''double'',
                  cfg_sort_order := Some ''desc''\<rparr>"

definition one_frame :: "string list machine" where
  "one_frame = \<lparr>store = [sample_frame], world = [], requests = []\<rparr>"

lemma cleaning_filter:
  "spec_filter sample_env cleaning_config sample_frame
     = Inr \<lparr>columns = [''city'', ''amt''], rows = [[StrV ''A'', IntV 10], [StrV ''A'', IntV 20]]\<rparr>"
  by code_simp

lemma cleaning_steps:
  "spec_select cleaning_config (spec_rename cleaning_config
     (spec_calculate sample_env cleaning_config (spec_drop cleaning_config
        \<lparr>columns = [''city'', ''amt''], rows = [[StrV ''A'', IntV 10], [StrV ''A'', IntV 20]]\<rparr>)))
   = \<lparr>columns = [''double'', ''town''], rows = [[IntV 20, StrV ''A''], [IntV 40, StrV ''A'']]\<rparr>"
  by code_simp

lemma cleaning_sort:
  "spec_sort sample_env cleaning_config
     \<lparr>columns = [''double'', ''town''], rows = [[IntV 20, StrV ''A''], [IntV 40, StrV ''A'']]\<rparr>
   = Inr \<lparr>columns = [''double'', ''town''], rows = [[IntV 40, StrV ''A''], [IntV 20, StrV ''A'']]\<rparr>"
  by code_simp

lemma cleaning_unresolved:
  "env_eval sample_env ''nope * 2'' sample_frame = Inl (Raised ''name is not defined: nope'')"
  by code_simp

theorem transform_steps_in_fixed_order_witness:
  "outcome (execute_transform sample_env 0 cleaning_config one_frame)
     = Inr \<lparr>columns = [''double'', ''town''], rows = [[IntV 40, StrV ''A''], [IntV 20, StrV ''A'']]\<rparr>
   \<and> columns (spec_drop cleaning_config sample_frame) = [''city'', ''amt'']
   \<and> env_eval sample_env ''nope * 2'' sample_frame = Inl (Raised ''name is not defined: nope'')
   \<and> calc_value sample_env (Some ''bad'', Some ''nope * 2'') sample_frame = sample_frame
   \<and> spec_select cleaning_config sample_frame = sample_frame"
proof -
  have d: "deref one_frame 0 = sample_frame" by (simp add: deref_def one_frame_def)
  have k: "filter (\<lambda>c. c \<notin> set (cfg_drop_columns cleaning_config)) (columns sample_frame)
             = [''city'', ''amt'']"
    by (simp add: sample_frame_def cleaning_config_def)
  have s: "filter (\<lambda>c. c \<in> set (columns sample_frame)) (cfg_selected_columns cleaning_config) = []"
    by (simp add: sample_frame_def cleaning_config_def)
  from transform_steps_in_fixed_order [of sample_env 0 cleaning_config one_frame sample_frame]
  show ?thesis
    unfolding d cleaning_filter k s
    using cleaning_steps cleaning_sort cleaning_unresolved by simp
qed

text \<open>
  The claim as stated fails when none of the selected names exists: the missing name is not
  dropped from the selection, the selection is given up. With \<^verbatim>\<open>selected_columns = ["zzz"]\<close>
  the transform returns the frame with both its columns, where keeping only the selected
  columns leaves none.
\<close>

definition lost_config :: config where
  "lost_config = empty_config\<lparr>cfg_selected_columns := [''zzz'']\<rparr>"

lemma lost_spec:
  "transform_spec sample_env lost_config sample_frame
     = Inr \<lparr>columns = [''city'', ''amt''],
            rows = [[StrV ''A'', IntV 10], [StrV ''A'', IntV 20], [StrV ''B'', IntV 5]]\<rparr>"
  by code_simp

theorem select_missing_counterexample:
  "cfg_selected_columns lost_config = [''zzz'']
   \<and> outcome (execute_transform sample_env 0 lost_config one_frame)
       = Inr \<lparr>columns = [''city'', ''amt''],
              rows = [[StrV ''A'', IntV 10], [StrV ''A'', IntV 20], [StrV ''B'', IntV 5]]\<rparr>
   \<and> keep_only [''zzz''] sample_frame = \<lparr>columns = [], rows = [[], [], []]\<rparr>"
proof -
  have d: "deref one_frame 0 = sample_frame" by (simp add: deref_def one_frame_def)
  have k: "keep_only [''zzz''] sample_frame = \<lparr>columns = [], rows = [[], [], []]\<rparr>"
    by (simp add: keep_only_def sample_frame_def)
  have c: "cfg_selected_columns lost_config = [''zzz'']" by (simp add: lost_config_def)
  from transform_refines_spec [of sample_env 0 lost_config one_frame] lost_spec c k
  show ?thesis by (simp add: d)
qed

section \<open>A sort column that does not exist\<close>

lemma spec_sort_missing:
  "cfg_sort_by cfg = Some c \<Longrightarrow> c \<notin> set (columns t) \<Longrightarrow> spec_sort env cfg t = Inr t"
  by (simp add: spec_sort_def str_value_def)

text \<open>
  Claim C6, as amended. When \<^verbatim>\<open>sort_by\<close> of a transform node names a column that the
  frame reaching the sort step does not have, the guard \<^verbatim>\<open>sort_by in df.columns\<close> skips
  the sort: if the filter does not raise, the node ends with status \<^verbatim>\<open>success\<close>, its
  entry in \<^verbatim>\<open>node_results\<close> is the preview of the unsorted frame, and the status and the
  entry of every other node (the upstream source among them) are as they were.
\<close>

theorem missing_sort_column_skips_sort:
  assumes ty: "nd_type (data_of nd) = Some ''transform''"
    and cf: "nd_config (data_of nd) = Some cfg"
    and inp: "collect_inputs es nid (ctx_results st) = df # others"
    and sb: "cfg_sort_by cfg = Some c"
    and fl: "spec_filter env cfg (deref (machine st) df) = Inr t1"
    and ab: "c \<notin> set (columns (spec_select cfg (spec_rename cfg
                 (spec_calculate env cfg (spec_drop cfg t1)))))"
  shows "\<exists>st'. run_node env es fm nid nd st = (None, st')
       \<and> node_status st' nid = Some StatusSuccess
       \<and> node_results st' nid = Some (Result (preview_of (spec_select cfg (spec_rename cfg
                 (spec_calculate env cfg (spec_drop cfg t1))))))
       \<and> (\<forall>k. k \<noteq> nid \<longrightarrow> node_status st' k = node_status st k
                         \<and> node_results st' k = node_results st k)"
proof -
  let ?pre = "spec_select cfg (spec_rename cfg (spec_calculate env cfg (spec_drop cfg t1)))"
  obtain r m' where ex: "execute_transform env df cfg (machine st) = (r, m')" by force
  from transform_refines_spec [of env df cfg "machine st"] fl spec_sort_missing [OF sb ab, of env]
  have "outcome (execute_transform env df cfg (machine st)) = Inr ?pre"
    by (simp add: transform_spec_def)
  with ex obtain a where r: "r = Inr a" and da: "deref m' a = ?pre"
    by (cases r) (auto simp: outcome_def)
  have disp: "execute_node_by_type env (Some ''transform'') cfg (df # others) fm (machine st)
                = (Inr (Some a), m')"
    by (simp add: execute_node_by_type_def unary_def some_result_def ex r)
  have "\<exists>st'. run_node env es fm nid nd st = (None, st')
       \<and> node_status st' nid = Some StatusSuccess
       \<and> node_results st' nid = Some (Result (preview_of ?pre))"
    using ty cf inp disp da by (simp add: run_node_def Let_def log_def)
  then obtain st' where st': "run_node env es fm nid nd st = (None, st')"
    and ok: "node_status st' nid = Some StatusSuccess"
    and res: "node_results st' nid = Some (Result (preview_of ?pre))" by blast
  have "\<forall>k. k \<noteq> nid \<longrightarrow> node_status st' k = node_status st k
                         \<and> node_results st' k = node_results st k"
    using run_node_other [of _ nid env es fm nd st] st' by simp
  with st' ok res show ?thesis by blast
qed

definition sorting_config :: config where
  "sorting_config = empty_config\<lparr>cfg_sort_by := Some ''nope''\<rparr>"

definition sorting_doc :: workflow where
  "sorting_doc =
     \<lparr>nodes = [plain_node ''s'' ''source'' (empty_config\<lparr>cfg_file_id := Some ''f1''\<rparr>),
               plain_node ''t'' ''transform'' sorting_config],
      edges = [\<lparr>source = ''s'', target = ''t''\<rparr>]\<rparr>"

lemma sorting_order: "execution_order sorting_doc = Inr [''s'', ''t'']"
  by (simp add: execution_order_def sorting_doc_def build_graph_def add_edge_def plain_node_def)

text \<open>
  The claim as stated fails on a source followed by a transform with
  \<^verbatim>\<open>sort_by = "nope"\<close>: the run succeeds and the transform node is marked
  \<^verbatim>\<open>success\<close>.
\<close>

theorem missing_sort_column_counterexample:
  "''nope'' \<notin> set (columns sample_frame)
   \<and> (case execute_workflow sample_env sorting_doc Map.empty [''f1.xlsx''] of
        Inl e \<Rightarrow> False
      | Inr rep \<Rightarrow> success rep \<and> rep_error rep = None
           \<and> rep_node_status rep ''t'' = Some StatusSuccess
           \<and> rep_node_results rep ''t'' = Some (Result (preview_of sample_frame))
           \<and> rep_node_status rep ''s'' = Some StatusSuccess)"
  by (simp add: execute_workflow_def run_workflow_def sorting_order)
     (simp add: sorting_doc_def sorting_config_def node_map_of_def initial_state_def run_node_def
        execute_node_by_type_def execute_source_def resolve_file_def alloc_result_def alloc_def
        execute_transform_def transform_filter_def transform_drop_def
        transform_calculations_def transform_rename_def transform_select_def transform_sort_def
        sample_env_def plain_node_def data_of_def log_def fail_node_def collect_inputs_def
        unary_def some_result_def report_of_def startswith_def deref_def sample_frame_def
        List.map_filter_def Let_def)

definition after_source :: "string list run_state" where
  "after_source =
     \<lparr>machine = \<lparr>store = [sample_frame], world = [''f1.xlsx''], requests = []\<rparr>,
      ctx_results = [''s'' \<mapsto> 0], ctx_logs = [], output_file = None, final_preview = None,
      node_results = [''s'' \<mapsto> Result (preview_of sample_frame)],
      node_status = [''s'' \<mapsto> StatusSuccess, ''t'' \<mapsto> StatusPending],
      saves = 0\<rparr>"

theorem missing_sort_column_skips_sort_witness:
  "cfg_sort_by sorting_config = Some ''nope''
   \<and> ''nope'' \<notin> set (columns sample_frame)
   \<and> (\<exists>st'. run_node sample_env (edges sorting_doc) Map.empty ''t''
               (plain_node ''t'' ''transform'' sorting_config) after_source = (None, st')
          \<and> node_status st' ''t'' = Some StatusSuccess
          \<and> node_results st' ''t'' = Some (Result (preview_of sample_frame))
          \<and> node_status st' ''s'' = Some StatusSuccess)"
proof -
  let ?nd = "plain_node ''t'' ''transform'' sorting_config"
  have ty: "nd_type (data_of ?nd) = Some ''transform''" by (simp add: plain_node_def data_of_def)
  have cf: "nd_config (data_of ?nd) = Some sorting_config" by (simp add: plain_node_def data_of_def)
  have inp: "collect_inputs (edges sorting_doc) ''t'' (ctx_results after_source) = 0 # []"
    by (simp add: collect_inputs_def sorting_doc_def after_source_def List.map_filter_def)
  have sb: "cfg_sort_by sorting_config = Some ''nope''" by (simp add: sorting_config_def)
  have fl: "spec_filter sample_env sorting_config (deref (machine after_source) 0) = Inr sample_frame"
    by (simp add: spec_filter_def sorting_config_def truthy_def deref_def after_source_def)
  have pre: "spec_select sorting_config (spec_rename sorting_config
               (spec_calculate sample_env sorting_config (spec_drop sorting_config sample_frame)))
             = sample_frame"
    by (simp add: spec_select_def spec_rename_def spec_calculate_def spec_drop_def
        sorting_config_def pd_rename_def)
  have ab: "''nope'' \<notin> set (columns (spec_select sorting_config (spec_rename sorting_config
               (spec_calculate sample_env sorting_config (spec_drop sorting_config sample_frame)))))"
    by (simp add: pre) (simp add: sample_frame_def)
  have st: "node_status after_source ''s'' = Some StatusSuccess" by (simp add: after_source_def)
  from missing_sort_column_skips_sort [OF ty cf inp sb fl ab, of Map.empty]
  show ?thesis using sb pre st by (auto simp: sample_frame_def)
qed

section \<open>The per-row model node\<close>




text \<open>The prompts that were sent as requests: those of the calls whose import did not raise.\<close>

definition posted :: "string list \<Rightarrow> chat_outcome list \<Rightarrow> string list" where
  "posted prompts outcomes =
     map fst (filter (\<lambda>(p, r). case r of CallRaised e \<Rightarrow> False | _ \<Rightarrow> True) (zip prompts outcomes))"

text \<open>The prompts of the first twenty rows of a frame, each row as \<^verbatim>\<open>iterrows()\<close> yields it.\<close>

definition agent_prompts :: "'w env \<Rightarrow> config \<Rightarrow> table \<Rightarrow> string list" where
  "agent_prompts env cfg t =
     map (\<lambda>row. row_prompt env (str_value (cfg_prompt cfg)) (columns t)
                  (env_upcast env (t\<lparr>rows := take 20 (rows t)\<rparr>) row))
       (take 20 (rows t))"













text \<open>The prompt of a row of a frame that mixes integers and floats: the integer comes as a float.\<close>

lemma upcast_prompt:
  "agent_prompts sample_env (empty_config\<lparr>cfg_prompt := Some ''{{n}}''\<rparr>)
     \<lparr>columns = [''n'', ''x''], rows = [[IntV 1, FloatV (1 / 2)]]\<rparr> = [''1.0'']"
  by code_simp



section \<open>The vlookup operator\<close>

text \<open>
  The frame that \<^verbatim>\<open>_execute_vlookup\<close> computes from its two input frames once its keys
  are known: both key columns as text, the valid return columns, the left merge, and the
  right key dropped when the two key names differ.
\<close>

definition vlookup_value :: "'w env \<Rightarrow> string \<Rightarrow> string \<Rightarrow> string list \<Rightarrow> table \<Rightarrow> table \<Rightarrow> error + table" where
  "vlookup_value env left_key right_key return_columns main lookup =
     (if left_key \<notin> set (columns main) then Inl (VlookupMainMissing left_key (columns main))
      else if right_key \<notin> set (columns lookup)
      then Inl (VlookupLookupMissing right_key (columns lookup))
      else
        (let main' = astype_str env left_key main;
             lookup' = astype_str env right_key lookup;
             valid0 = filter (\<lambda>c. c \<in> set (columns lookup') \<and> c \<noteq> right_key) return_columns;
             valid = (if valid0 = []
                      then filter (\<lambda>c. c \<noteq> right_key \<and> c \<notin> set (columns main')) (columns lookup')
                      else valid0)
         in case merge_left left_key right_key main' (pd_select (right_key # valid) lookup') of
              Inl e \<Rightarrow> Inl e
            | Inr result \<Rightarrow>
                if left_key \<noteq> right_key \<and> right_key \<in> set (columns result)
                then Inr (pd_drop [right_key] result) else Inr result))"

definition vlookup_keys :: "config \<Rightarrow> string \<times> string" where
  "vlookup_keys cfg =
     (str_value (or_else (cfg_left_key cfg) (cfg_lookup_key cfg)),
      str_value (or_else (or_else (cfg_right_key cfg) (cfg_lookup_key cfg))
                   (or_else (cfg_left_key cfg) (cfg_lookup_key cfg))))"

definition vlookup_returns :: "config \<Rightarrow> string list" where
  "vlookup_returns cfg =
     (if cfg_columns_to_get cfg \<noteq> [] then cfg_columns_to_get cfg else cfg_return_columns cfg)"

lemma truthy_str_value: "truthy v = (str_value v \<noteq> [])"
  by (simp add: truthy_def str_value_def split: option.splits)

lemma truthy_Some: "truthy v \<Longrightarrow> v = Some (str_value v)"
  by (simp add: truthy_def str_value_def split: option.splits)

lemma or_else_truthy: "truthy (or_else a b) = (truthy a \<or> truthy b)"
  by (simp add: or_else_def)

lemma vlookup_refines_value:
  assumes "main_df < length (store m)" and "lookup_df < length (store m)"
    and "fst (vlookup_keys cfg) \<noteq> []"
  shows "outcome (execute_vlookup env main_df lookup_df cfg m)
           = vlookup_value env (fst (vlookup_keys cfg)) (snd (vlookup_keys cfg)) (vlookup_returns cfg)
               (deref m main_df) (deref m lookup_df)"
proof -
  let ?lk = "fst (vlookup_keys cfg)" and ?rk = "snd (vlookup_keys cfg)"
  let ?main = "deref m main_df" and ?lookup = "deref m lookup_df"
  let ?L = "or_else (cfg_left_key cfg) (cfg_lookup_key cfg)"
  let ?R = "or_else (or_else (cfg_right_key cfg) (cfg_lookup_key cfg)) ?L"
  from assms(3) have tl: "truthy ?L" by (simp add: vlookup_keys_def truthy_str_value)
  then have tr: "truthy ?R" by (simp add: or_else_truthy)
  obtain l where l: "?L = Some l" and ln: "l \<noteq> []" and lk: "?lk = l"
    using truthy_Some [OF tl] tl by (auto simp: vlookup_keys_def truthy_str_value)
  obtain r where r: "?R = Some r" and rn: "r \<noteq> []" and rk: "?rk = r"
    using truthy_Some [OF tr] tr by (auto simp: vlookup_keys_def truthy_str_value)
  let ?n = "length (store m)"
  let ?m2 = "m\<lparr>store := store m @ [?main, ?lookup]\<rparr>"
  have a1: "alloc ?main m = (?n, m\<lparr>store := store m @ [?main]\<rparr>)" by (simp add: alloc_def)
  have a2: "alloc (deref (m\<lparr>store := store m @ [?main]\<rparr>) lookup_df) (m\<lparr>store := store m @ [?main]\<rparr>)
              = (Suc ?n, ?m2)"
    using assms(2) by (simp add: alloc_def deref_def nth_append)
  have d_main: "deref ?m2 ?n = ?main" by (simp add: deref_def nth_append)
  have d_look: "deref ?m2 (Suc ?n) = ?lookup" by (simp add: deref_def nth_append)
  let ?m3 = "assign ?n (astype_str env l ?main) ?m2"
  let ?m4 = "assign (Suc ?n) (astype_str env r ?lookup) ?m3"
  have d3: "deref ?m3 (Suc ?n) = ?lookup" by (simp add: deref_def assign_def nth_append)
  have d4m: "deref ?m4 ?n = astype_str env l ?main"
    by (simp add: deref_def assign_def nth_append list_update_append)
  have d4l: "deref ?m4 (Suc ?n) = astype_str env r ?lookup"
    by (simp add: deref_def assign_def nth_append list_update_append)
  show ?thesis
  proof (cases "l \<in> set (columns ?main) \<and> r \<in> set (columns ?lookup)")
    case False
    then show ?thesis
      using l ln r rn
      by (auto simp: execute_vlookup_def Let_def a1 a2 d_main d_look vlookup_value_def outcome_def lk rk)
  next
    case True
    define main' where "main' = astype_str env l ?main"
    define lookup' where "lookup' = astype_str env r ?lookup"
    define valid0 where "valid0 = filter (\<lambda>c. c \<in> set (columns lookup') \<and> c \<noteq> r) (vlookup_returns cfg)"
    define valid where "valid = (if valid0 = []
                  then filter (\<lambda>c. c \<noteq> r \<and> c \<notin> set (columns main')) (columns lookup')
                  else valid0)"
    define merged where "merged = merge_left l r main' (pd_select (r # valid) lookup')"
    define m4 where "m4 = ?m4"
    have ex: "execute_vlookup env main_df lookup_df cfg m
        = (case alloc_result merged m4 of
             (Inl e, m5) \<Rightarrow> (Inl e, m5)
           | (Inr result, m5) \<Rightarrow>
               if l \<noteq> r \<and> r \<in> set (columns (deref m5 result))
               then (let (result', m6) = alloc (pd_drop [r] (deref m5 result)) m5 in (Inr result', m6))
               else (Inr result, m5))"
      using True l ln r rn
      by (simp add: execute_vlookup_def Let_def a1 a2 d_main d_look d3 d4m d4l vlookup_returns_def
          merged_def valid_def valid0_def main'_def lookup'_def m4_def)
    have val: "vlookup_value env l r (vlookup_returns cfg) ?main ?lookup
        = (case merged of
              Inl e \<Rightarrow> Inl e
            | Inr result \<Rightarrow>
                if l \<noteq> r \<and> r \<in> set (columns result)
                then Inr (pd_drop [r] result) else Inr result)"
      using True
      by (simp add: vlookup_value_def Let_def merged_def valid_def valid0_def main'_def lookup'_def)
    show ?thesis
    proof (cases merged)
      case (Inl e)
      then show ?thesis
        by (simp add: ex val alloc_result_def outcome_def lk rk)
    next
      case (Inr res)
      define m5 where "m5 = m4\<lparr>store := store m4 @ [res]\<rparr>"
      have ar: "alloc_result (Inr res) m4 = (Inr (length (store m4)), m5)"
        by (simp add: alloc_result_def alloc_def m5_def)
      have d5: "deref m5 (length (store m4)) = res" by (simp add: deref_def m5_def)
      have d6: "\<And>x. deref (m5\<lparr>store := store m5 @ [x]\<rparr>) (length (store m5)) = x"
        by (simp add: deref_def)
      show ?thesis
        by (simp add: ex val ar d5 d6 Inr outcome_def lk rk alloc_def)
    qed
  qed
qed

text \<open>
  The second scenario of the specification, with one more row in the lookup table that
  repeats the key 1.
\<close>

definition sku_main :: table where
  "sku_main = \<lparr>columns = [''sku''], rows = [[IntV 1], [IntV 2], [IntV 3]]\<rparr>"

definition sku_lookup :: table where
  "sku_lookup = \<lparr>columns = [''sku'', ''name''],
                  rows = [[IntV 1, StrV ''x''], [IntV 2, StrV ''y''], [IntV 1, StrV ''z'']]\<rparr>"

definition sku_config :: config where
  "sku_config = empty_config\<lparr>cfg_left_key := Some ''sku'', cfg_right_key := Some ''sku'',
                              cfg_columns_to_get := [''name'']\<rparr>"

definition sku_machine :: "string list machine" where
  "sku_machine = \<lparr>store = [sku_main, sku_lookup], world = [], requests = []\<rparr>"

lemma sku_text:
  "astype_str sample_env ''sku'' sku_main
     = \<lparr>columns = [''sku''], rows = [[StrV ''1''], [StrV ''2''], [StrV ''3'']]\<rparr>"
  "astype_str sample_env ''sku'' sku_lookup
     = \<lparr>columns = [''sku'', ''name''],
        rows = [[StrV ''1'', StrV ''x''], [StrV ''2'', StrV ''y''], [StrV ''1'', StrV ''z'']]\<rparr>"
  by (simp_all add: astype_str_def set_column_def column_def cell_at_def cells_of_def
      sku_main_def sku_lookup_def sample_env_def sample_text_def int_text_def digit_def)

lemma sku_value:
  "vlookup_value sample_env ''sku'' ''sku'' [''name''] sku_main sku_lookup
     = Inr \<lparr>columns = [''sku'', ''name''],
            rows = [[StrV ''1'', StrV ''x''], [StrV ''1'', StrV ''z''],
                    [StrV ''2'', StrV ''y''], [StrV ''3'', Null]]\<rparr>"
  unfolding vlookup_value_def Let_def sku_text
  by (simp add: sku_main_def sku_lookup_def merge_left_def add_suffix_def pd_select_def
      cell_at_def cells_of_def Let_def)

text \<open>
  Claim C4. The claim asks for as many output rows as the main table has. On a lookup table
  in which a key occurs twice the left merge pairs the main row with both lookup rows: the
  main table has three rows, the result four.
\<close>

theorem vlookup_duplicate_keys_add_rows:
  "nrows (deref sku_machine 0) = 3
   \<and> outcome (execute_vlookup sample_env 0 1 sku_config sku_machine)
       = Inr \<lparr>columns = [''sku'', ''name''],
              rows = [[StrV ''1'', StrV ''x''], [StrV ''1'', StrV ''z''],
                      [StrV ''2'', StrV ''y''], [StrV ''3'', Null]]\<rparr>"
proof -
  have k: "vlookup_keys sku_config = (''sku'', ''sku'')"
    by (simp add: vlookup_keys_def sku_config_def or_else_def truthy_def str_value_def)
  have c: "vlookup_returns sku_config = [''name'']" by (simp add: vlookup_returns_def sku_config_def)
  have d: "deref sku_machine 0 = sku_main" "deref sku_machine 1 = sku_lookup"
    "deref sku_machine (Suc 0) = sku_lookup"
    by (simp_all add: deref_def sku_machine_def)
  have "outcome (execute_vlookup sample_env 0 1 sku_config sku_machine)
          = vlookup_value sample_env ''sku'' ''sku'' [''name''] sku_main sku_lookup"
  proof -
    have v: "0 < length (store sku_machine)" "1 < length (store sku_machine)"
      by (simp_all add: sku_machine_def)
    from vlookup_refines_value [OF v, of sku_config sample_env] show ?thesis
      by (simp add: k c d)
  qed
  then show ?thesis by (simp add: sku_value d) (simp add: nrows_def sku_main_def)
qed
end
